theory Spec2Isabelle
  imports Complex_Main "HOL-Library.Word"
begin

section \<open>Strings, bytes and JavaScript values\<close>

text \<open>
  A JavaScript string is a sequence of UTF-16 code units. The model has the strings whose
  code units are below 256: a \<^typ>\<open>char\<close> is the code unit of that number, so that the
  characters are those of Unicode from U+0000 to U+00FF (ASCII and the Latin-1 supplement).
  On these strings \<open>trim\<close>, \<open>toLowerCase\<close> and \<open>Buffer.from(s, 'utf8')\<close> are the
  functions of the runtime.

  \<open>String.prototype.trim\<close> removes white space and line terminators from both ends. Below
  U+0100 these are TAB, LF, VT, FF, CR, SPACE and the no-break space U+00A0.
\<close>

type_synonym bytes = "8 word list"

definition isWhitespace :: "char \<Rightarrow> bool" where
  "isWhitespace c =
     (c \<in> set [CHR '' '', CHR 0x09, CHR 0x0A, CHR 0x0B, CHR 0x0C, CHR 0x0D, CHR 0xA0])"

definition trim :: "string \<Rightarrow> string" where
  "trim s = rev (dropWhile isWhitespace (rev (dropWhile isWhitespace s)))"

text \<open>
  \<open>String.prototype.toLowerCase\<close> maps each character by the Unicode case mapping. Below
  U+0100 the characters with a lower case of their own are A to Z and U+00C0 to U+00DE
  except the multiplication sign U+00D7; the lower case is 32 higher.
\<close>

definition upperCaseLetters :: string where
  "upperCaseLetters =
     ''ABCDEFGHIJKLMNOPQRSTUVWXYZ''
     @ [CHR 0xC0, CHR 0xC1, CHR 0xC2, CHR 0xC3, CHR 0xC4, CHR 0xC5, CHR 0xC6, CHR 0xC7,
        CHR 0xC8, CHR 0xC9, CHR 0xCA, CHR 0xCB, CHR 0xCC, CHR 0xCD, CHR 0xCE, CHR 0xCF,
        CHR 0xD0, CHR 0xD1, CHR 0xD2, CHR 0xD3, CHR 0xD4, CHR 0xD5, CHR 0xD6, CHR 0xD8,
        CHR 0xD9, CHR 0xDA, CHR 0xDB, CHR 0xDC, CHR 0xDD, CHR 0xDE]"

definition lowerCaseLetters :: string where
  "lowerCaseLetters =
     ''abcdefghijklmnopqrstuvwxyz''
     @ [CHR 0xE0, CHR 0xE1, CHR 0xE2, CHR 0xE3, CHR 0xE4, CHR 0xE5, CHR 0xE6, CHR 0xE7,
        CHR 0xE8, CHR 0xE9, CHR 0xEA, CHR 0xEB, CHR 0xEC, CHR 0xED, CHR 0xEE, CHR 0xEF,
        CHR 0xF0, CHR 0xF1, CHR 0xF2, CHR 0xF3, CHR 0xF4, CHR 0xF5, CHR 0xF6, CHR 0xF8,
        CHR 0xF9, CHR 0xFA, CHR 0xFB, CHR 0xFC, CHR 0xFD, CHR 0xFE]"

definition toLowerChar :: "char \<Rightarrow> char" where
  "toLowerChar c =
     (case map_of (zip upperCaseLetters lowerCaseLetters) c of
        Some l \<Rightarrow> l
      | None \<Rightarrow> c)"

definition toLowerCase :: "string \<Rightarrow> string" where
  "toLowerCase s = map toLowerChar s"

definition startsWith :: "string \<Rightarrow> string \<Rightarrow> bool" where
  "startsWith s p = (take (length p) s = p)"

text \<open>
  \<open>Buffer.from(s, 'utf8')\<close>: a code unit below U+0080 is one byte, one from U+0080 to
  U+00FF is the two bytes \<open>0xC0 + c div 64\<close> and \<open>0x80 + c mod 64\<close>.
  \<open>Buffer.toString('base64')\<close> is the base64 encoding with padding.
\<close>

definition utf8EncodeChar :: "char \<Rightarrow> bytes" where
  "utf8EncodeChar c =
     (if of_char c < (128 :: nat) then [of_char c]
      else [of_nat (192 + of_char c div 64), of_nat (128 + of_char c mod 64)])"

definition utf8Encode :: "string \<Rightarrow> bytes" where
  "utf8Encode s = concat (map utf8EncodeChar s)"

definition base64Alphabet :: string where
  "base64Alphabet = ''ABCDEFGHIJKLMNOPQRSTUVWXYZabcdefghijklmnopqrstuvwxyz0123456789+/''"

definition base64Char :: "nat \<Rightarrow> char" where
  "base64Char n = base64Alphabet ! (n mod 64)"

fun base64Encode :: "bytes \<Rightarrow> string" where
  "base64Encode (a # b # c # rest) =
     (let n = unat a * 65536 + unat b * 256 + unat c
      in [base64Char (n div 262144), base64Char (n div 4096), base64Char (n div 64), base64Char n]
         @ base64Encode rest)"
| "base64Encode [a, b] =
     (let n = unat a * 65536 + unat b * 256
      in [base64Char (n div 262144), base64Char (n div 4096), base64Char (n div 64), CHR ''=''])"
| "base64Encode [a] =
     (let n = unat a * 65536
      in [base64Char (n div 262144), base64Char (n div 4096), CHR ''='', CHR ''=''])"
| "base64Encode [] = []"

text \<open>
  A JavaScript value of type \<open>unknown\<close>. An object is the list of its properties, a
  function value is named by a number and its behaviour belongs to the outside world
  (\<open>callFunction\<close> below).
\<close>

datatype jsval =
    JUndefined
  | JNull
  | JBool bool
  | JNum rat
  | JStr string
  | JArr "jsval list"
  | JObj "(string \<times> jsval) list"
  | JFun nat

text \<open>Property access \<open>value[key]\<close> on a value known to be an object.\<close>

fun getProp :: "jsval \<Rightarrow> string \<Rightarrow> jsval" where
  "getProp (JObj ps) k = (case map_of ps k of Some v \<Rightarrow> v | None \<Rightarrow> JUndefined)"
| "getProp _ k = JUndefined"

text \<open>The truthiness of a value, as \<open>!value\<close> tests it.\<close>

fun truthy :: "jsval \<Rightarrow> bool" where
  "truthy JUndefined = False"
| "truthy JNull = False"
| "truthy (JBool b) = b"
| "truthy (JNum q) = (q \<noteq> 0)"
| "truthy (JStr s) = (s \<noteq> [])"
| "truthy v = True"

text \<open>\<open>v ?? d\<close>\<close>

fun nullish :: "jsval \<Rightarrow> jsval \<Rightarrow> jsval" where
  "nullish JUndefined d = d"
| "nullish JNull d = d"
| "nullish v d = v"

text \<open>
  An issue of a zod validation error: the path of the offending value, zod's issue code,
  and the message when the schema declares one.
\<close>

datatype path_elem = Key string | Index nat

datatype zod_issue = ZodIssue "path_elem list" string "string option"

datatype js_error =
    Error string
  | TypeError string
  | ZodError "zod_issue list"
  | RegistryBrokerParseError string jsval
  | Thrown jsval

section \<open>Configuration, Hedera client and ledger options\<close>

text \<open>
  \<open>LedgerCredentialAuthOptions\<close> is declared by the SDK; the fields this package reads
  or writes are fields of the record, any other is kept in \<open>otherFields\<close>. The value the
  \<open>sign\<close> callback resolves to is \<open>LedgerSignature\<close> (\<open>signerPublicKey\<close> is its
  \<open>publicKey\<close>).
\<close>

record LedgerSignature =
  signature :: string
  signatureKind :: string
  signerPublicKey :: "string option"

record LedgerCredentialAuthOptions =
  accountId :: string
  network :: "string option"
  hederaPrivateKey :: "string option"
  label :: "string option"
  sign :: "(string \<Rightarrow> js_error + LedgerSignature) option"
  otherFields :: "(string \<times> jsval) list"

record RegistryBrokerLedgerOptions = LedgerCredentialAuthOptions +
  autoAuthenticate :: "bool option"

record RegistryBrokerClientOptions =
  baseUrl :: "string option"
  apiKey :: "string option"
  ledgerApiKey :: "string option"
  otherClientOptions :: "(string \<times> jsval) list"

record RegistryBrokerPluginClientOptions = RegistryBrokerClientOptions +
  disableEnvApiKey :: "bool option"
  disableEnvLedgerApiKey :: "bool option"

record RegistryBrokerPluginConfiguration =
  client :: "RegistryBrokerPluginClientOptions option"
  ledger :: "RegistryBrokerLedgerOptions option"

text \<open>
  \<open>accountId\<close> and \<open>publicKey\<close> of an operator: absent, a string, or an object, of
  which \<open>toString?.()\<close> gives a string or not.
\<close>

datatype id_like = IdUndefined | IdString string | IdObject "string option"

record HederaOperatorLike =
  operatorAccountId :: id_like
  operatorPublicKey :: id_like
  transactionSigner :: "(bytes \<Rightarrow> js_error + bytes) option"

text \<open>
  A member \<open>isMainnet\<close>, \<open>isPreviewnet\<close> or \<open>isTestnet\<close> of a ledger id: not a function,
  a function returning a truthy or falsy value, or a function that throws.
\<close>

datatype ledger_check = CheckAbsent | CheckReturns bool | CheckThrows

record HederaLedgerIdLike =
  isMainnet :: ledger_check
  isPreviewnet :: ledger_check
  isTestnet :: ledger_check
  ledgerToString :: "string option"

text \<open>
  \<open>getOperator\<close> is \<open>None\<close> when the member is not a function, \<open>Some None\<close> when the
  function returns \<open>null\<close>.
\<close>

record HederaOperatorClient =
  ledgerId :: "HederaLedgerIdLike option"
  getOperator :: "HederaOperatorLike option option"

record RegistryBrokerClientResolutionContext =
  hederaClient :: "HederaOperatorClient option"

section \<open>Effects\<close>

text \<open>
  What the code does to the outside world, in order: reads of \<open>process.env\<close>, calls into
  the Hedera client, log lines, the client factory, ledger authentication, calls of
  client and handle methods (\<open>Invoke target this args\<close>), \<open>RegistryBrokerClient.initializeAgent\<close>
  and the creation of handle ids.
\<close>

datatype event =
    EnvRead string
  | GetOperator
  | LedgerCheck string
  | LedgerToString
  | LogInfo string
  | LogWarn string
  | CreateClient RegistryBrokerClientOptions
  | Authenticate jsval LedgerCredentialAuthOptions
  | Invoke jsval jsval "jsval list"
  | InitializeAgent jsval
  | CreateHandleId string

text \<open>
  The outside world. What an external call answers may depend on everything that happened
  before it, so each oracle is given the events so far.
\<close>

record world =
  process_env :: "string \<Rightarrow> string option"
  createClient :: "RegistryBrokerClientOptions \<Rightarrow> js_error + jsval"
  authenticateWithLedgerCredentials ::
    "event list \<Rightarrow> jsval \<Rightarrow> LedgerCredentialAuthOptions \<Rightarrow> js_error option"
  callFunction :: "event list \<Rightarrow> nat \<Rightarrow> jsval \<Rightarrow> jsval list \<Rightarrow> js_error + jsval"
  initializeAgent :: "event list \<Rightarrow> jsval \<Rightarrow> js_error + jsval"
  randomUUID :: "event list \<Rightarrow> string option"
  dateNowBase36 :: "event list \<Rightarrow> string"
  mathRandomBase36 :: "event list \<Rightarrow> string"

section \<open>RegistryBrokerClientProvider\<close>

definition env :: "world \<Rightarrow> string \<Rightarrow> string option \<times> event list" where
  "env w key =
     ((case process_env w key of
         None \<Rightarrow> None
       | Some v \<Rightarrow> (let t = trim v in if t = [] then None else Some t)),
      [EnvRead key])"

definition normalizeSecret :: "string option \<Rightarrow> string option" where
  "normalizeSecret val =
     (case val of
        None \<Rightarrow> None
      | Some v \<Rightarrow>
          if v = [] then None
          else (let trimmed = trim v in if length trimmed > 0 then Some trimmed else None))"

definition normaliseHederaNetwork :: "string option \<Rightarrow> bool \<Rightarrow> string" where
  "normaliseHederaNetwork val preferMainnet =
     (case map_option trim val of
        None \<Rightarrow> if preferMainnet then ''hedera:mainnet'' else ''hedera:testnet''
      | Some raw \<Rightarrow>
          if raw = [] then (if preferMainnet then ''hedera:mainnet'' else ''hedera:testnet'')
          else
            (let lower = toLowerCase raw
             in if startsWith lower ''hedera:'' then lower else ''hedera:'' @ lower))"

definition formatAccountId :: "id_like \<Rightarrow> string option" where
  "formatAccountId val =
     (case val of
        IdString s \<Rightarrow> (let trimmed = trim s in if length trimmed > 0 then Some trimmed else None)
      | IdObject (Some formatted) \<Rightarrow>
          (let trimmed = trim formatted in if length trimmed > 0 then Some trimmed else None)
      | IdObject None \<Rightarrow> None
      | IdUndefined \<Rightarrow> None)"

record ledger_env_params =
  accountKey :: string
  privateKey :: string
  fallbackAccountKey :: "string option"
  fallbackPrivateKey :: "string option"
  preferMainnet :: bool

text \<open>The value \<open>pickLedgerEnvSet\<close> returns: \<open>{ accountId, privateKey, preferMainnet }\<close>.\<close>

record ledger_env_set =
  setAccountId :: string
  setPrivateKey :: string
  setPreferMainnet :: bool

text \<open>\<open>env(key) ?? (fallback ? env(fallback) : undefined)\<close>\<close>

definition envWithFallback :: "world \<Rightarrow> string \<Rightarrow> string option \<Rightarrow> string option \<times> event list" where
  "envWithFallback w key fallback =
     (case env w key of
        (Some v, t) \<Rightarrow> (Some v, t)
      | (None, t) \<Rightarrow>
          (case fallback of
             None \<Rightarrow> (None, t)
           | Some f \<Rightarrow> if f = [] then (None, t) else (case env w f of (r, t') \<Rightarrow> (r, t @ t'))))"

definition pickLedgerEnvSet :: "world \<Rightarrow> ledger_env_params \<Rightarrow> ledger_env_set option \<times> event list" where
  "pickLedgerEnvSet w params =
     (case envWithFallback w (accountKey params) (fallbackAccountKey params) of
        (acc, t1) \<Rightarrow>
          (case envWithFallback w (privateKey params) (fallbackPrivateKey params) of
             (priv, t2) \<Rightarrow>
               (case (acc, priv) of
                  (Some a, Some p) \<Rightarrow>
                    (Some \<lparr>setAccountId = a, setPrivateKey = p,
                           setPreferMainnet = preferMainnet params\<rparr>, t1 @ t2)
                | _ \<Rightarrow> (None, t1 @ t2))))"

definition deriveLedgerOptionsFromEnv :: "world \<Rightarrow> RegistryBrokerLedgerOptions option \<times> event list" where
  "deriveLedgerOptionsFromEnv w =
     (case pickLedgerEnvSet w
             \<lparr>accountKey = ''HEDERA_OPERATOR_ID'', privateKey = ''HEDERA_OPERATOR_KEY'',
              fallbackAccountKey = Some ''HEDERA_ACCOUNT_ID'',
              fallbackPrivateKey = Some ''HEDERA_PRIVATE_KEY'', preferMainnet = False\<rparr> of
        (operatorCredentials, t1) \<Rightarrow>
          (case pickLedgerEnvSet w
                  \<lparr>accountKey = ''MAINNET_HEDERA_ACCOUNT_ID'',
                   privateKey = ''MAINNET_HEDERA_PRIVATE_KEY'',
                   fallbackAccountKey = None, fallbackPrivateKey = None,
                   preferMainnet = True\<rparr> of
             (mainnetCredentials, t2) \<Rightarrow>
               (case (case operatorCredentials of Some c \<Rightarrow> Some c | None \<Rightarrow> mainnetCredentials) of
                  None \<Rightarrow> (None, t1 @ t2)
                | Some selected \<Rightarrow>
                    (case env w ''HEDERA_NETWORK'' of
                       (hederaNetwork, t3) \<Rightarrow>
                         (Some \<lparr>accountId = setAccountId selected,
                                network = Some (normaliseHederaNetwork hederaNetwork
                                                  (setPreferMainnet selected)),
                                hederaPrivateKey = Some (setPrivateKey selected),
                                label = None, sign = None, otherFields = [],
                                autoAuthenticate = None\<rparr>,
                          t1 @ t2 @ t3)))))"

definition invokeLedgerCheck :: "ledger_check \<Rightarrow> string \<Rightarrow> bool \<times> event list" where
  "invokeLedgerCheck fn method =
     (case fn of
        CheckAbsent \<Rightarrow> (False, [])
      | CheckReturns b \<Rightarrow> (b, [LedgerCheck method])
      | CheckThrows \<Rightarrow> (False, [LedgerCheck method]))"

definition deriveNetworkFromHederaClient :: "world \<Rightarrow> HederaOperatorClient \<Rightarrow> string \<times> event list" where
  "deriveNetworkFromHederaClient w hc =
     (let fromEnv = (\<lambda>t. case env w ''HEDERA_NETWORK'' of
                           (v, t') \<Rightarrow> (normaliseHederaNetwork v False, t @ t'))
      in case ledgerId hc of
           None \<Rightarrow> fromEnv []
         | Some lid \<Rightarrow>
             (case invokeLedgerCheck (isMainnet lid) ''isMainnet'' of
                (True, t1) \<Rightarrow> (''hedera:mainnet'', t1)
              | (False, t1) \<Rightarrow>
                  (case invokeLedgerCheck (isPreviewnet lid) ''isPreviewnet'' of
                     (True, t2) \<Rightarrow> (''hedera:previewnet'', t1 @ t2)
                   | (False, t2) \<Rightarrow>
                       (case invokeLedgerCheck (isTestnet lid) ''isTestnet'' of
                          (True, t3) \<Rightarrow> (''hedera:testnet'', t1 @ t2 @ t3)
                        | (False, t3) \<Rightarrow>
                            (case ledgerToString lid of
                               None \<Rightarrow> fromEnv (t1 @ t2 @ t3)
                             | Some lbl \<Rightarrow>
                                 if length lbl > 0 then
                                   (normaliseHederaNetwork (Some lbl) False,
                                    t1 @ t2 @ t3 @ [LedgerToString])
                                 else fromEnv (t1 @ t2 @ t3 @ [LedgerToString]))))))"

text \<open>The \<open>sign\<close> callback built by \<open>deriveLedgerOptionsFromHederaClient\<close>.\<close>

definition signWith ::
  "(bytes \<Rightarrow> js_error + bytes) \<Rightarrow> string option \<Rightarrow> string \<Rightarrow> js_error + LedgerSignature" where
  "signWith signer publicKey message =
     (let payload = utf8Encode message
      in case signer payload of
           Inl e \<Rightarrow> Inl e
         | Inr signatureBytes \<Rightarrow>
             Inr \<lparr>signature = base64Encode signatureBytes, signatureKind = ''raw'',
                  signerPublicKey = publicKey\<rparr>)"

definition deriveLedgerOptionsFromHederaClient ::
  "world \<Rightarrow> RegistryBrokerClientResolutionContext option
     \<Rightarrow> RegistryBrokerLedgerOptions option \<times> event list" where
  "deriveLedgerOptionsFromHederaClient w context =
     (case (case context of None \<Rightarrow> None | Some c \<Rightarrow> hederaClient c) of
        None \<Rightarrow> (None, [])
      | Some hc \<Rightarrow>
          (case getOperator hc of
             None \<Rightarrow> (None, [])
           | Some None \<Rightarrow>
               (None, [GetOperator, LogWarn ''[RegistryBrokerPlugin] Hedera client does not expose an operator. Falling back to environment variables.''])
           | Some (Some operator) \<Rightarrow>
               if operatorAccountId operator = IdUndefined
                  \<or> operatorAccountId operator = IdString []
                  \<or> transactionSigner operator = None then
                 (None, [GetOperator, LogWarn ''[RegistryBrokerPlugin] Hedera client operator credentials are unavailable. Falling back to environment variables.''])
               else
                 (case formatAccountId (operatorAccountId operator) of
                    None \<Rightarrow>
                      (None, [GetOperator, LogWarn ''[RegistryBrokerPlugin] Hedera operator account ID is invalid. Falling back to environment variables.''])
                  | Some acc \<Rightarrow>
                      (let publicKey = formatAccountId (operatorPublicKey operator)
                       in case deriveNetworkFromHederaClient w hc of
                            (net, t) \<Rightarrow>
                              (Some \<lparr>accountId = acc, network = Some net,
                                     hederaPrivateKey = None,
                                     label = Some ''Hedera Agent Kit operator'',
                                     sign = map_option (\<lambda>signer. signWith signer publicKey)
                                              (transactionSigner operator),
                                     otherFields = [],
                                     autoAuthenticate = Some True\<rparr>,
                               GetOperator # t)))))"

definition normalizeLedgerConfig :: "RegistryBrokerLedgerOptions \<Rightarrow> RegistryBrokerLedgerOptions" where
  "normalizeLedgerConfig l =
     (if network l = None \<or> network l = Some [] then l
      else l\<lparr>network := Some (normaliseHederaNetwork (network l) False)\<rparr>)"

definition resolveLedgerOptions ::
  "world \<Rightarrow> RegistryBrokerPluginConfiguration option
     \<Rightarrow> RegistryBrokerClientResolutionContext option
     \<Rightarrow> RegistryBrokerLedgerOptions option \<times> event list" where
  "resolveLedgerOptions w config context =
     (case (case config of None \<Rightarrow> None | Some c \<Rightarrow> ledger c) of
        Some l \<Rightarrow> (Some (normalizeLedgerConfig l), [])
      | None \<Rightarrow>
          (case deriveLedgerOptionsFromHederaClient w context of
             (Some hederaDerived, t) \<Rightarrow> (Some hederaDerived, t)
           | (None, t) \<Rightarrow>
               (case deriveLedgerOptionsFromEnv w of (r, t') \<Rightarrow> (r, t @ t'))))"

definition buildClientOptions ::
  "world \<Rightarrow> RegistryBrokerPluginConfiguration option
     \<Rightarrow> RegistryBrokerClientOptions \<times> event list" where
  "buildClientOptions w config =
     (let clientConfig =
            (case (case config of None \<Rightarrow> None | Some c \<Rightarrow> client c) of
               None \<Rightarrow> \<lparr>baseUrl = None, apiKey = None, ledgerApiKey = None,
                        otherClientOptions = [], disableEnvApiKey = None,
                        disableEnvLedgerApiKey = None\<rparr>
             | Some c \<Rightarrow> c);
          clientOverrides = RegistryBrokerClientOptions.truncate clientConfig
      in case (case baseUrl clientOverrides of
                 Some b \<Rightarrow> (Some b, [])
               | None \<Rightarrow> env w ''REGISTRY_BROKER_BASE_URL'') of
           (mergedBaseUrl, t1) \<Rightarrow>
             (case (case normalizeSecret (apiKey clientOverrides) of
                      Some k \<Rightarrow> (Some k, [])
                    | None \<Rightarrow>
                        if disableEnvApiKey clientConfig \<noteq> Some True then
                          (case env w ''REGISTRY_BROKER_API_KEY'' of
                             (v, t) \<Rightarrow> (normalizeSecret v, t))
                        else (None, [])) of
                (mergedApiKey, t2) \<Rightarrow>
                  (case (case normalizeSecret (ledgerApiKey clientOverrides) of
                           Some k \<Rightarrow> (Some k, [])
                         | None \<Rightarrow>
                             if disableEnvLedgerApiKey clientConfig \<noteq> Some True then
                               (case env w ''REGISTRY_BROKER_LEDGER_KEY'' of
                                  (v, t) \<Rightarrow> (normalizeSecret v, t))
                             else (None, [])) of
                     (mergedLedgerApiKey, t3) \<Rightarrow>
                       (clientOverrides\<lparr>baseUrl := mergedBaseUrl, apiKey := mergedApiKey,
                                         ledgerApiKey := mergedLedgerApiKey\<rparr>,
                        t1 @ t2 @ t3))))"

text \<open>
  \<open>initialiseClient\<close> runs after the events \<open>hist\<close> and returns how its promise settles
  (\<open>Inl\<close>: rejected) with the events it adds. The logger is the one of the SDK, with
  \<open>info\<close> and \<open>warn\<close>.
\<close>

definition initialiseClient ::
  "world \<Rightarrow> RegistryBrokerPluginConfiguration option \<Rightarrow> event list
     \<Rightarrow> RegistryBrokerClientResolutionContext option
     \<Rightarrow> (js_error + jsval) \<times> event list" where
  "initialiseClient w config hist context =
     (case buildClientOptions w config of
        (options, t1) \<Rightarrow>
          (case createClient w options of
             Inl e \<Rightarrow> (Inl e, t1 @ [CreateClient options])
           | Inr newClient \<Rightarrow>
               (case resolveLedgerOptions w config context of
                  (Some ledgerConfig, t2) \<Rightarrow>
                    (let authOptions = LedgerCredentialAuthOptions.truncate ledgerConfig;
                         before = t1 @ [CreateClient options] @ t2
                     in if autoAuthenticate ledgerConfig = Some False then
                          (Inr newClient,
                           before @ [LogInfo ''[RegistryBrokerPlugin] Ledger authentication disabled via configuration.''])
                        else
                          (case authenticateWithLedgerCredentials w (hist @ before) newClient authOptions of
                             Some e \<Rightarrow> (Inl e, before @ [Authenticate newClient authOptions])
                           | None \<Rightarrow>
                               (Inr newClient,
                                before @ [Authenticate newClient authOptions,
                                          LogInfo (''[RegistryBrokerPlugin] Authenticated with ledger account ''
                                                   @ accountId authOptions @ ''.'')])))
                | (None, t2) \<Rightarrow>
                    if apiKey options = None \<or> apiKey options = Some [] then
                      (Inr newClient,
                       t1 @ [CreateClient options] @ t2
                          @ [LogWarn ''[RegistryBrokerPlugin] Neither REGISTRY_BROKER_API_KEY nor ledger credentials were provided. Paid endpoints will fail.''])
                    else (Inr newClient, t1 @ [CreateClient options] @ t2))))"

text \<open>
  The state of one plugin instance: the provider's \<open>clientPromise\<close> (how the promise
  settles, once there is one), the conversation store's \<open>handles\<close> map, and the events so
  far.
\<close>

record plugin_state =
  clientPromise :: "(js_error + jsval) option"
  handles :: "string \<rightharpoonup> jsval"
  trace :: "event list"

definition initialState :: plugin_state where
  "initialState = \<lparr>clientPromise = None, handles = Map.empty, trace = []\<rparr>"

definition getClient ::
  "world \<Rightarrow> RegistryBrokerPluginConfiguration option
     \<Rightarrow> RegistryBrokerClientResolutionContext option \<Rightarrow> plugin_state
     \<Rightarrow> (js_error + jsval) \<times> plugin_state" where
  "getClient w config context s =
     (case clientPromise s of
        Some p \<Rightarrow> (p, s)
      | None \<Rightarrow>
          (case initialiseClient w config (trace s) context of
             (p, t) \<Rightarrow> (p, s\<lparr>clientPromise := Some p, trace := trace s @ t\<rparr>)))"

section \<open>Schemas of the zod library\<close>

text \<open>
  The part of zod the package uses. \<open>ZString required_error invalid_type_error min\<close> is
  \<open>z.string({...}).min(n, message)\<close>; \<open>ZNumber int positive min max\<close> is \<open>z.number()\<close> with
  its checks; \<open>ZObject shape unknownKeys\<close> is \<open>z.object(shape)\<close>, which strips unknown keys
  unless it is \<open>.strict()\<close>; \<open>ZCustom check message\<close> is \<open>z.custom(check, message)\<close>.
\<close>

datatype unknown_keys = Strip | Strict

datatype zod_schema =
    ZUnknown
  | ZString "string option" "string option" "(nat \<times> string) option"
  | ZNumber bool bool "rat option" "rat option"
  | ZBoolean
  | ZEnum "string list"
  | ZArray zod_schema
  | ZUnion "zod_schema list"
  | ZRecord zod_schema
  | ZObject "(string \<times> zod_schema) list" unknown_keys
  | ZOptional zod_schema
  | ZCustom "jsval \<Rightarrow> bool" string

definition issuesOf :: "(zod_issue list + 'a) list \<Rightarrow> zod_issue list" where
  "issuesOf rs = concat (map (\<lambda>r. case r of Inl is \<Rightarrow> is | Inr v \<Rightarrow> []) rs)"

definition valuesOf :: "(zod_issue list + 'a) list \<Rightarrow> 'a list" where
  "valuesOf rs = concat (map (\<lambda>r. case r of Inl is \<Rightarrow> [] | Inr v \<Rightarrow> [v]) rs)"

definition firstSuccess :: "(zod_issue list + 'a) list \<Rightarrow> 'a option" where
  "firstSuccess rs = (case valuesOf rs of [] \<Rightarrow> None | v # vs \<Rightarrow> Some v)"

definition numberIssues ::
  "path_elem list \<Rightarrow> bool \<Rightarrow> bool \<Rightarrow> rat option \<Rightarrow> rat option \<Rightarrow> rat \<Rightarrow> zod_issue list" where
  "numberIssues p isInt positive minimum maximum q =
     (if isInt \<and> of_int \<lfloor>q\<rfloor> \<noteq> q then [ZodIssue p ''invalid_type'' None] else [])
     @ (if positive \<and> q \<le> 0 then [ZodIssue p ''too_small'' None] else [])
     @ (case minimum of None \<Rightarrow> [] | Some m \<Rightarrow> if q < m then [ZodIssue p ''too_small'' None] else [])
     @ (case maximum of None \<Rightarrow> [] | Some m \<Rightarrow> if m < q then [ZodIssue p ''too_big'' None] else [])"

text \<open>
  The output of an object schema keeps a key of the shape when the input has the key or
  the parsed value is not \<open>undefined\<close>.
\<close>

definition keptFields ::
  "(string \<times> jsval) list \<Rightarrow> (string \<times> (zod_issue list + jsval)) list \<Rightarrow> (string \<times> jsval) list" where
  "keptFields input rs =
     concat (map (\<lambda>(k, r). case r of
                                Inl is \<Rightarrow> []
                              | Inr v \<Rightarrow> if k \<in> fst ` set input \<or> v \<noteq> JUndefined then [(k, v)] else [])
                 rs)"

fun parseAt :: "path_elem list \<Rightarrow> zod_schema \<Rightarrow> jsval \<Rightarrow> zod_issue list + jsval" where
  "parseAt p ZUnknown v = Inr v"
| "parseAt p (ZString required_error invalid_type_error minLength) v =
     (case v of
        JStr s \<Rightarrow>
          (case minLength of
             None \<Rightarrow> Inr v
           | Some (n, message) \<Rightarrow>
               if length s < n then Inl [ZodIssue p ''too_small'' (Some message)] else Inr v)
      | JUndefined \<Rightarrow> Inl [ZodIssue p ''invalid_type'' required_error]
      | _ \<Rightarrow> Inl [ZodIssue p ''invalid_type'' invalid_type_error])"
| "parseAt p (ZNumber isInt positive minimum maximum) v =
     (case v of
        JNum q \<Rightarrow>
          (let issues = numberIssues p isInt positive minimum maximum q
           in if issues = [] then Inr v else Inl issues)
      | _ \<Rightarrow> Inl [ZodIssue p ''invalid_type'' None])"
| "parseAt p ZBoolean v =
     (case v of JBool b \<Rightarrow> Inr v | _ \<Rightarrow> Inl [ZodIssue p ''invalid_type'' None])"
| "parseAt p (ZEnum options) v =
     (case v of
        JStr s \<Rightarrow> if s \<in> set options then Inr v else Inl [ZodIssue p ''invalid_enum_value'' None]
      | _ \<Rightarrow> Inl [ZodIssue p ''invalid_type'' None])"
| "parseAt p (ZArray element) v =
     (case v of
        JArr items \<Rightarrow>
          (let rs = map (\<lambda>(i, x). parseAt (p @ [Index i]) element x)
                        (zip [0..<length items] items)
           in if issuesOf rs = [] then Inr (JArr (valuesOf rs)) else Inl (issuesOf rs))
      | _ \<Rightarrow> Inl [ZodIssue p ''invalid_type'' None])"
| "parseAt p (ZUnion options) v =
     (case firstSuccess (map (\<lambda>option. parseAt p option v) options) of
        Some r \<Rightarrow> Inr r
      | None \<Rightarrow> Inl [ZodIssue p ''invalid_union'' None])"
| "parseAt p (ZRecord valueSchema) v =
     (case v of
        JObj props \<Rightarrow>
          (let rs = map (\<lambda>(k, x). parseAt (p @ [Key k]) valueSchema x) props
           in if issuesOf rs = [] then Inr (JObj (zip (map fst props) (valuesOf rs)))
              else Inl (issuesOf rs))
      | _ \<Rightarrow> Inl [ZodIssue p ''invalid_type'' None])"
| "parseAt p (ZObject shape unknownKeys) v =
     (case v of
        JObj props \<Rightarrow>
          (let rs = map (\<lambda>(k, fieldSchema). (k, parseAt (p @ [Key k]) fieldSchema (getProp v k)))
                        shape;
               extraKeys = filter (\<lambda>k. k \<notin> fst ` set shape) (map fst props);
               issues = issuesOf (map snd rs)
                        @ (if unknownKeys = Strict \<and> extraKeys \<noteq> []
                           then [ZodIssue p ''unrecognized_keys'' None] else [])
           in if issues = [] then Inr (JObj (keptFields props rs)) else Inl issues)
      | _ \<Rightarrow> Inl [ZodIssue p ''invalid_type'' None])"
| "parseAt p (ZOptional inner) v =
     (case v of JUndefined \<Rightarrow> Inr JUndefined | _ \<Rightarrow> parseAt p inner v)"
| "parseAt p (ZCustom check message) v =
     (if check v then Inr v else Inl [ZodIssue p ''custom'' (Some message)])"

text \<open>\<open>schema.parse(value)\<close>: the parsed value, or a thrown \<open>ZodError\<close>.\<close>

definition parse :: "zod_schema \<Rightarrow> jsval \<Rightarrow> js_error + jsval" where
  "parse schema v = (case parseAt [] schema v of Inl issues \<Rightarrow> Inl (ZodError issues) | Inr r \<Rightarrow> Inr r)"

text \<open>\<open>.partial()\<close>, \<open>.strict()\<close> and \<open>.optional()\<close>\<close>

fun partial :: "zod_schema \<Rightarrow> zod_schema" where
  "partial (ZObject shape unknownKeys) =
     ZObject (map (\<lambda>(k, fieldSchema). (k, ZOptional fieldSchema)) shape) unknownKeys"
| "partial schema = schema"

fun strict :: "zod_schema \<Rightarrow> zod_schema" where
  "strict (ZObject shape unknownKeys) = ZObject shape Strict"
| "strict schema = schema"

definition zobject :: "(string \<times> zod_schema) list \<Rightarrow> zod_schema" where
  "zobject shape = ZObject shape Strip"

definition zstring :: zod_schema where
  "zstring = ZString None None None"

section \<open>RegistryBrokerConversationStore\<close>

definition createHandleId :: "world \<Rightarrow> event list \<Rightarrow> string" where
  "createHandleId w hist =
     (case randomUUID w hist of
        Some uuid \<Rightarrow> uuid
      | None \<Rightarrow> dateNowBase36 w hist @ ''-'' @ mathRandomBase36 w hist)"

text \<open>\<open>register\<close> returns the \<open>StoredConversationHandle\<close>.\<close>

definition register :: "world \<Rightarrow> jsval \<Rightarrow> plugin_state \<Rightarrow> jsval \<times> plugin_state" where
  "register w handle s =
     (let handleId = createHandleId w (trace s)
      in (JObj [(''handleId'', JStr handleId),
                (''sessionId'', getProp handle ''sessionId''),
                (''mode'', getProp handle ''mode''),
                (''summary'', nullish (getProp handle ''summary'') JNull)],
          s\<lparr>handles := (handles s)(handleId \<mapsto> handle),
            trace := trace s @ [CreateHandleId handleId]\<rparr>))"

definition get :: "string \<Rightarrow> plugin_state \<Rightarrow> js_error + jsval" where
  "get handleId s =
     (case handles s handleId of
        None \<Rightarrow> Inl (Error (''Conversation handle not found: '' @ handleId))
      | Some handle \<Rightarrow>
          if truthy handle then Inr handle
          else Inl (Error (''Conversation handle not found: '' @ handleId)))"

definition release :: "string \<Rightarrow> plugin_state \<Rightarrow> bool \<times> plugin_state" where
  "release handleId s =
     (handles s handleId \<noteq> None, s\<lparr>handles := (handles s)(handleId := None)\<rparr>)"

section \<open>RegistryBrokerOperationTool\<close>

definition nonEmptyString :: "string \<Rightarrow> zod_schema" where
  "nonEmptyString lbl =
     ZString (Some (lbl @ '' is required'')) (Some (lbl @ '' must be a string''))
       (Some (1, lbl @ '' cannot be empty''))"

definition objectLike :: "string \<Rightarrow> zod_schema" where
  "objectLike lbl =
     ZCustom (\<lambda>v. case v of JObj props \<Rightarrow> True | JArr items \<Rightarrow> True | _ \<Rightarrow> False)
       (lbl @ '' must be an object'')"

definition registrySearchParamsSchema :: zod_schema where
  "registrySearchParamsSchema =
     partial (zobject
       [(''q'', ZOptional zstring),
        (''page'', ZOptional (ZNumber True True None None)),
        (''limit'', ZOptional (ZNumber True True None None)),
        (''registry'', ZOptional zstring),
        (''registries'', ZOptional (ZArray zstring)),
        (''capabilities'', ZOptional (ZArray zstring)),
        (''protocols'', ZOptional (ZArray zstring)),
        (''minTrust'', ZOptional (ZNumber False False (Some 0) (Some 100))),
        (''adapters'', ZOptional (ZArray zstring)),
        (''sortBy'', ZOptional zstring),
        (''sortOrder'', ZOptional (ZEnum [''asc'', ''desc''])),
        (''type'', ZOptional zstring),
        (''verified'', ZOptional ZBoolean),
        (''online'', ZOptional ZBoolean),
        (''metadata'',
           ZOptional (ZRecord (ZArray (ZUnion [zstring, ZNumber False False None None, ZBoolean]))))])"

definition registryBrokerInputSchema :: zod_schema where
  "registryBrokerInputSchema =
     zobject [(''operation'', zstring), (''payload'', ZOptional ZUnknown)]"

datatype OperationDefinition =
    noArgs string
  | stringArg string string bool
  | objectArg string zod_schema
  | tupleArg string zod_schema "jsval \<Rightarrow> jsval list"
  | custom zod_schema "jsval \<Rightarrow> js_error + jsval"

definition conversationOperations :: "string list" where
  "conversationOperations =
     [''conversation.send'', ''conversation.decryptHistoryEntry'', ''conversation.release'']"

definition conversationSendSchema :: zod_schema where
  "conversationSendSchema =
     zobject [(''handleId'', nonEmptyString ''handleId''), (''payload'', objectLike ''payload'')]"

definition conversationDecryptSchema :: zod_schema where
  "conversationDecryptSchema =
     zobject [(''handleId'', nonEmptyString ''handleId''), (''entry'', objectLike ''entry'')]"

definition conversationReleaseSchema :: zod_schema where
  "conversationReleaseSchema = zobject [(''handleId'', nonEmptyString ''handleId'')]"

definition vectorSearchSchema :: zod_schema where
  "vectorSearchSchema = objectLike ''vectorSearchRequest''"

definition registerAgentSchema :: zod_schema where
  "registerAgentSchema =
     zobject [(''payload'', objectLike ''registerAgentPayload''),
              (''options'', ZOptional (objectLike ''registerAgentOptions''))]"

definition updateAgentSchema :: zod_schema where
  "updateAgentSchema =
     zobject [(''uaid'', nonEmptyString ''uaid''), (''request'', objectLike ''request'')]"

definition waitForRegistrationSchema :: zod_schema where
  "waitForRegistrationSchema =
     zobject [(''attemptId'', nonEmptyString ''attemptId''),
              (''options'', ZOptional (objectLike ''options''))]"

definition registryNamespaceSchema :: zod_schema where
  "registryNamespaceSchema =
     zobject [(''registry'', nonEmptyString ''registry''),
              (''namespace'', nonEmptyString ''namespace'')]"

definition ledgerChallengeSchema :: zod_schema where
  "ledgerChallengeSchema = objectLike ''ledgerChallenge''"

definition ledgerVerifySchema :: zod_schema where
  "ledgerVerifySchema = objectLike ''ledgerVerifyRequest''"

definition ledgerAuthSchema :: zod_schema where
  "ledgerAuthSchema = objectLike ''ledgerCredentialAuth''"

definition createSessionSchema :: zod_schema where
  "createSessionSchema = objectLike ''createSessionPayload''"

definition sendMessageSchema :: zod_schema where
  "sendMessageSchema = objectLike ''sendMessagePayload''"

definition chatHistorySchema :: zod_schema where
  "chatHistorySchema =
     zobject [(''sessionId'', nonEmptyString ''sessionId''),
              (''options'', ZOptional (objectLike ''historyOptions''))]"

definition submitHandshakeSchema :: zod_schema where
  "submitHandshakeSchema =
     zobject [(''sessionId'', nonEmptyString ''sessionId''),
              (''payload'', objectLike ''handshakePayload'')]"

definition setDefaultHeaderSchema :: zod_schema where
  "setDefaultHeaderSchema =
     zobject [(''name'', nonEmptyString ''name''), (''value'', ZOptional zstring)]"

definition compactHistorySchema :: zod_schema where
  "compactHistorySchema = objectLike ''compactHistoryPayload''"

definition registerKeySchema :: zod_schema where
  "registerKeySchema = objectLike ''registerEncryptionKeyPayload''"

definition deriveSecretSchema :: zod_schema where
  "deriveSecretSchema = objectLike ''deriveSharedSecretOptions''"

definition encryptEnvelopeSchema :: zod_schema where
  "encryptEnvelopeSchema = objectLike ''encryptCipherEnvelopeOptions''"

definition decryptEnvelopeSchema :: zod_schema where
  "decryptEnvelopeSchema = objectLike ''decryptCipherEnvelopeOptions''"

definition ensureAgentKeySchema :: zod_schema where
  "ensureAgentKeySchema = objectLike ''ensureAgentKeyOptions''"

definition generateKeyPairSchema :: zod_schema where
  "generateKeyPairSchema =
     ZOptional (partial (zobject
       [(''keyType'', ZOptional (ZEnum [''secp256k1''])),
        (''envVar'', ZOptional zstring),
        (''envPath'', ZOptional zstring),
        (''overwrite'', ZOptional ZBoolean)]))"

definition startChatSchema :: zod_schema where
  "startChatSchema = objectLike ''startChatOptions''"

definition startConversationSchema :: zod_schema where
  "startConversationSchema = objectLike ''startConversationOptions''"

definition acceptConversationSchema :: zod_schema where
  "acceptConversationSchema = objectLike ''acceptConversationOptions''"

definition startEncryptedSessionSchema :: zod_schema where
  "startEncryptedSessionSchema = objectLike ''startEncryptedSessionOptions''"

definition acceptEncryptedSessionSchema :: zod_schema where
  "acceptEncryptedSessionSchema = objectLike ''acceptEncryptedSessionOptions''"

definition initializeAgentSchema :: zod_schema where
  "initializeAgentSchema = objectLike ''initializeAgentOptions''"

definition OPERATION_DEFINITIONS :: "(string \<times> OperationDefinition) list" where
  "OPERATION_DEFINITIONS =
     [(''stats'', noArgs ''stats''),
      (''registries'', noArgs ''registries''),
      (''getAdditionalRegistries'', noArgs ''getAdditionalRegistries''),
      (''popularSearches'', noArgs ''popularSearches''),
      (''adapters'', noArgs ''adapters''),
      (''adaptersDetailed'', noArgs ''adaptersDetailed''),
      (''listProtocols'', noArgs ''listProtocols''),
      (''searchStatus'', noArgs ''searchStatus''),
      (''websocketStats'', noArgs ''websocketStats''),
      (''metricsSummary'', noArgs ''metricsSummary''),
      (''dashboardStats'', noArgs ''dashboardStats''),
      (''getX402Minimums'', noArgs ''getX402Minimums''),
      (''encryptionReady'', noArgs ''encryptionReady''),
      (''getDefaultHeaders'', noArgs ''getDefaultHeaders''),
      (''setApiKey'', stringArg ''setApiKey'' ''apiKey'' True),
      (''setLedgerApiKey'', stringArg ''setLedgerApiKey'' ''apiKey'' True),
      (''resolveUaid'', stringArg ''resolveUaid'' ''uaid'' False),
      (''validateUaid'', stringArg ''validateUaid'' ''uaid'' False),
      (''getUaidConnectionStatus'', stringArg ''getUaidConnectionStatus'' ''uaid'' False),
      (''closeUaidConnection'', stringArg ''closeUaidConnection'' ''uaid'' False),
      (''facets'', stringArg ''facets'' ''adapter'' True),
      (''search'', objectArg ''search'' registrySearchParamsSchema),
      (''vectorSearch'', objectArg ''vectorSearch'' vectorSearchSchema),
      (''registrySearchByNamespace'',
         tupleArg ''registrySearchByNamespace'' registryNamespaceSchema
           (\<lambda>payload. [getProp payload ''registry'', getProp payload ''namespace''])),
      (''registerAgent'',
         tupleArg ''registerAgent'' registerAgentSchema
           (\<lambda>payload. [getProp payload ''payload'', getProp payload ''options''])),
      (''getRegistrationQuote'',
         objectArg ''getRegistrationQuote'' (objectLike ''getRegistrationQuotePayload'')),
      (''updateAgent'',
         tupleArg ''updateAgent'' updateAgentSchema
           (\<lambda>payload. [getProp payload ''uaid'', getProp payload ''request''])),
      (''getRegistrationProgress'', stringArg ''getRegistrationProgress'' ''attemptId'' False),
      (''waitForRegistrationCompletion'',
         tupleArg ''waitForRegistrationCompletion'' waitForRegistrationSchema
           (\<lambda>payload. [getProp payload ''attemptId'', getProp payload ''options''])),
      (''purchaseCreditsWithHbar'',
         objectArg ''purchaseCreditsWithHbar'' (objectLike ''purchaseCreditsWithHbar'')),
      (''purchaseCreditsWithX402'',
         objectArg ''purchaseCreditsWithX402'' (objectLike ''purchaseCreditsWithX402'')),
      (''buyCreditsWithX402'', objectArg ''buyCreditsWithX402'' (objectLike ''buyCreditsWithX402'')),
      (''createLedgerChallenge'', objectArg ''createLedgerChallenge'' ledgerChallengeSchema),
      (''verifyLedgerChallenge'', objectArg ''verifyLedgerChallenge'' ledgerVerifySchema),
      (''authenticateWithLedger'', objectArg ''authenticateWithLedger'' ledgerAuthSchema),
      (''authenticateWithLedgerCredentials'',
         objectArg ''authenticateWithLedgerCredentials'' ledgerAuthSchema),
      (''detectProtocol'', objectArg ''detectProtocol'' (objectLike ''detectProtocol'')),
      (''setDefaultHeader'',
         tupleArg ''setDefaultHeader'' setDefaultHeaderSchema
           (\<lambda>payload. [getProp payload ''name'', getProp payload ''value''])),
      (''chat.start'', objectArg ''chat.start'' startChatSchema),
      (''chat.createSession'', objectArg ''chat.createSession'' createSessionSchema),
      (''chat.sendMessage'', objectArg ''chat.sendMessage'' sendMessageSchema),
      (''chat.endSession'', stringArg ''chat.endSession'' ''sessionId'' False),
      (''chat.getHistory'',
         tupleArg ''chat.getHistory'' chatHistorySchema
           (\<lambda>payload. [getProp payload ''sessionId'', getProp payload ''options''])),
      (''chat.compactHistory'', objectArg ''chat.compactHistory'' compactHistorySchema),
      (''chat.getEncryptionStatus'', stringArg ''chat.getEncryptionStatus'' ''sessionId'' False),
      (''chat.submitEncryptionHandshake'',
         tupleArg ''chat.submitEncryptionHandshake'' submitHandshakeSchema
           (\<lambda>payload. [getProp payload ''sessionId'', getProp payload ''payload''])),
      (''chat.createEncryptedSession'',
         objectArg ''chat.createEncryptedSession'' startEncryptedSessionSchema),
      (''chat.acceptEncryptedSession'',
         objectArg ''chat.acceptEncryptedSession'' acceptEncryptedSessionSchema),
      (''chat.startConversation'', objectArg ''chat.startConversation'' startConversationSchema),
      (''chat.acceptConversation'', objectArg ''chat.acceptConversation'' acceptConversationSchema),
      (''encryption.registerKey'', objectArg ''encryption.registerKey'' registerKeySchema),
      (''encryption.generateEphemeralKeyPair'', noArgs ''encryption.generateEphemeralKeyPair''),
      (''encryption.deriveSharedSecret'',
         objectArg ''encryption.deriveSharedSecret'' deriveSecretSchema),
      (''encryption.encryptCipherEnvelope'',
         objectArg ''encryption.encryptCipherEnvelope'' encryptEnvelopeSchema),
      (''encryption.decryptCipherEnvelope'',
         objectArg ''encryption.decryptCipherEnvelope'' decryptEnvelopeSchema),
      (''encryption.ensureAgentKey'', objectArg ''encryption.ensureAgentKey'' ensureAgentKeySchema),
      (''generateEncryptionKeyPair'',
         objectArg ''generateEncryptionKeyPair'' generateKeyPairSchema)]"

text \<open>
  \<open>OPERATION_DEFINITIONS\<close> is an object literal, and \<open>OPERATION_DEFINITIONS[operation]\<close> a
  property access on it: a name that is not a key of the literal still finds the members
  the literal inherits from \<open>Object.prototype\<close> (functions, and \<open>Object.prototype\<close> itself
  for \<open>__proto__\<close>), none of which has a \<open>type\<close> or a \<open>path\<close>.
\<close>

definition objectPrototypeKeys :: "string list" where
  "objectPrototypeKeys =
     [''constructor'', ''__defineGetter__'', ''__defineSetter__'', ''hasOwnProperty'',
      ''__lookupGetter__'', ''__lookupSetter__'', ''isPrototypeOf'', ''propertyIsEnumerable'',
      ''toString'', ''valueOf'', ''__proto__'', ''toLocaleString'']"

datatype definition_lookup = Missing | Own OperationDefinition | Inherited

definition lookupDefinition :: "string \<Rightarrow> definition_lookup" where
  "lookupDefinition operation =
     (case map_of OPERATION_DEFINITIONS operation of
        Some d \<Rightarrow> Own d
      | None \<Rightarrow> if operation \<in> set objectPrototypeKeys then Inherited else Missing)"

text \<open>\<open>path.split('.')\<close>\<close>

fun split :: "char \<Rightarrow> string \<Rightarrow> string list" where
  "split sep [] = [] # []"
| "split sep (c # cs) =
     (if c = sep then [] # split sep cs
      else (case split sep cs of
              [] \<Rightarrow> [c] # []
            | x # xs \<Rightarrow> (c # x) # xs))"

text \<open>
  The client is the tree of its properties; a member of an array or of a function is not
  looked up by any path of the table.
\<close>

definition resolveTarget :: "jsval \<Rightarrow> string \<Rightarrow> jsval" where
  "resolveTarget c path =
     foldl (\<lambda>acc key. case acc of JObj props \<Rightarrow> getProp acc key | _ \<Rightarrow> JUndefined)
           c (split CHR ''.'' path)"

definition isConversationHandle :: "jsval \<Rightarrow> bool" where
  "isConversationHandle v =
     (case v of
        JObj props \<Rightarrow>
          (case getProp v ''sessionId'' of JStr sid \<Rightarrow> True | _ \<Rightarrow> False)
          \<and> (case getProp v ''send'' of JFun f \<Rightarrow> True | _ \<Rightarrow> False)
          \<and> (case getProp v ''decryptHistoryEntry'' of JFun f \<Rightarrow> True | _ \<Rightarrow> False)
      | _ \<Rightarrow> False)"

definition mapResult :: "world \<Rightarrow> string \<Rightarrow> jsval \<Rightarrow> plugin_state \<Rightarrow> jsval \<times> plugin_state" where
  "mapResult w operation result s =
     (if isConversationHandle result then
        (case register w result s of
           (stored, s') \<Rightarrow>
             (JObj [(''handleId'', getProp stored ''handleId''),
                    (''sessionId'', getProp stored ''sessionId''),
                    (''mode'', getProp stored ''mode''),
                    (''summary'', nullish (getProp stored ''summary'') JNull)], s'))
      else (result, s))"

definition wrapResult :: "world \<Rightarrow> string \<Rightarrow> jsval \<Rightarrow> plugin_state \<Rightarrow> jsval \<times> plugin_state" where
  "wrapResult w operation result s =
     (case mapResult w operation result s of
        (mapped, s') \<Rightarrow>
          (JObj [(''success'', JBool True), (''operation'', JStr operation), (''result'', mapped)],
           s'))"

text \<open>
  \<open>target.call(this, ...args)\<close> and \<open>object.member(...args)\<close>: the call is an event and the
  world gives its outcome; calling what is not a function is a \<open>TypeError\<close> (the message
  of a \<open>TypeError\<close> is the engine's).
\<close>

definition callTarget ::
  "world \<Rightarrow> jsval \<Rightarrow> jsval \<Rightarrow> jsval list \<Rightarrow> plugin_state \<Rightarrow> (js_error + jsval) \<times> plugin_state" where
  "callTarget w target this args s =
     (case target of
        JFun f \<Rightarrow>
          (callFunction w (trace s) f this args, s\<lparr>trace := trace s @ [Invoke target this args]\<rparr>)
      | _ \<Rightarrow> (Inl (TypeError ''target is not a function''), s))"

text \<open>\<open>String(value)\<close> of a value that passed \<open>nonEmptyString\<close>, hence a string.\<close>

definition stringOf :: "jsval \<Rightarrow> string" where
  "stringOf v = (case v of JStr s \<Rightarrow> s | _ \<Rightarrow> [])"

definition handleConversationOperation ::
  "world \<Rightarrow> string \<Rightarrow> jsval \<Rightarrow> plugin_state \<Rightarrow> (js_error + jsval) \<times> plugin_state" where
  "handleConversationOperation w operation payload s =
     (if operation = ''conversation.send'' then
        (case parse conversationSendSchema (nullish payload (JObj [])) of
           Inl e \<Rightarrow> (Inl e, s)
         | Inr parsed \<Rightarrow>
             (case get (stringOf (getProp parsed ''handleId'')) s of
                Inl e \<Rightarrow> (Inl e, s)
              | Inr handle \<Rightarrow>
                  callTarget w (getProp handle ''send'') handle [getProp parsed ''payload''] s))
      else if operation = ''conversation.decryptHistoryEntry'' then
        (case parse conversationDecryptSchema (nullish payload (JObj [])) of
           Inl e \<Rightarrow> (Inl e, s)
         | Inr parsed \<Rightarrow>
             (case get (stringOf (getProp parsed ''handleId'')) s of
                Inl e \<Rightarrow> (Inl e, s)
              | Inr handle \<Rightarrow>
                  callTarget w (getProp handle ''decryptHistoryEntry'') handle
                    [getProp parsed ''entry''] s))
      else if operation = ''conversation.release'' then
        (case parse conversationReleaseSchema (nullish payload (JObj [])) of
           Inl e \<Rightarrow> (Inl e, s)
         | Inr parsed \<Rightarrow>
             (case release (stringOf (getProp parsed ''handleId'')) s of
                (released, s') \<Rightarrow> (Inr (JBool released), s')))
      else (Inl (Error (''Unsupported conversation operation: '' @ operation)), s))"

text \<open>
  \<open>RegistryBrokerClient.initializeAgent\<close> is a static method of the SDK; its result has a
  \<open>client\<close> and an optional \<open>encryption\<close>.
\<close>

definition handleInitializeAgent ::
  "world \<Rightarrow> jsval \<Rightarrow> plugin_state \<Rightarrow> (js_error + jsval) \<times> plugin_state" where
  "handleInitializeAgent w payload s =
     (case parse initializeAgentSchema (nullish payload (JObj [])) of
        Inl e \<Rightarrow> (Inl e, s)
      | Inr parsed \<Rightarrow>
          (let s1 = s\<lparr>trace := trace s @ [InitializeAgent parsed]\<rparr>
           in case initializeAgent w (trace s) parsed of
                Inl e \<Rightarrow> (Inl e, s1)
              | Inr result \<Rightarrow>
                  (case getProp result ''client'' of
                     JObj props \<Rightarrow>
                       (case callTarget w (getProp (JObj props) ''getDefaultHeaders'')
                               (JObj props) [] s1 of
                          (Inl e, s2) \<Rightarrow> (Inl e, s2)
                        | (Inr headers, s2) \<Rightarrow>
                            (Inr (JObj [(''encryption'', nullish (getProp result ''encryption'') JNull),
                                        (''defaultHeaders'', headers)]), s2))
                   | _ \<Rightarrow> (Inl (TypeError ''result.client.getDefaultHeaders is not a function''), s1))))"

text \<open>The schema \<open>execute\<close> builds for a \<open>string\<close> definition.\<close>

definition stringArgSchema :: "string \<Rightarrow> bool \<Rightarrow> zod_schema" where
  "stringArgSchema field optional =
     strict (zobject [(field, if optional then ZOptional zstring else nonEmptyString field)])"

text \<open>A method definition applied to the client, once \<open>target\<close> is known to be a function.\<close>

definition invokeDefinition ::
  "world \<Rightarrow> OperationDefinition \<Rightarrow> string \<Rightarrow> jsval \<Rightarrow> jsval \<Rightarrow> jsval \<Rightarrow> plugin_state
     \<Rightarrow> (js_error + jsval) \<times> plugin_state" where
  "invokeDefinition w d operation payload c target s =
     (case d of
        noArgs path \<Rightarrow>
          (case callTarget w target c [] s of
             (Inl e, s') \<Rightarrow> (Inl e, s')
           | (Inr result, s') \<Rightarrow> (case wrapResult w operation result s' of (r, s'') \<Rightarrow> (Inr r, s'')))
      | stringArg path field optional \<Rightarrow>
          (case parse (stringArgSchema field optional)
                  (if optional \<and> payload = JUndefined then JObj [] else nullish payload (JObj [])) of
             Inl e \<Rightarrow> (Inl e, s)
           | Inr parsed \<Rightarrow>
               (case callTarget w target c [getProp parsed field] s of
                  (Inl e, s') \<Rightarrow> (Inl e, s')
                | (Inr result, s') \<Rightarrow>
                    (case wrapResult w operation result s' of (r, s'') \<Rightarrow> (Inr r, s''))))
      | objectArg path schema \<Rightarrow>
          (case parse schema (nullish payload (JObj [])) of
             Inl e \<Rightarrow> (Inl e, s)
           | Inr parsed \<Rightarrow>
               (case callTarget w target c [parsed] s of
                  (Inl e, s') \<Rightarrow> (Inl e, s')
                | (Inr result, s') \<Rightarrow>
                    (case wrapResult w operation result s' of (r, s'') \<Rightarrow> (Inr r, s''))))
      | tupleArg path schema mapArgs \<Rightarrow>
          (case parse schema (nullish payload (JObj [])) of
             Inl e \<Rightarrow> (Inl e, s)
           | Inr parsed \<Rightarrow>
               (case callTarget w target c (mapArgs parsed) s of
                  (Inl e, s') \<Rightarrow> (Inl e, s')
                | (Inr result, s') \<Rightarrow>
                    (case wrapResult w operation result s' of (r, s'') \<Rightarrow> (Inr r, s''))))
      | custom schema handler \<Rightarrow> (Inr JNull, s))"

definition definitionPath :: "OperationDefinition \<Rightarrow> string" where
  "definitionPath d =
     (case d of
        noArgs path \<Rightarrow> path
      | stringArg path field optional \<Rightarrow> path
      | objectArg path schema \<Rightarrow> path
      | tupleArg path schema mapArgs \<Rightarrow> path
      | custom schema handler \<Rightarrow> [])"

text \<open>The body of the \<open>try\<close> block of \<open>execute\<close>.\<close>

definition executeBody ::
  "world \<Rightarrow> RegistryBrokerPluginConfiguration option \<Rightarrow> HederaOperatorClient option
     \<Rightarrow> string \<Rightarrow> jsval \<Rightarrow> plugin_state \<Rightarrow> (js_error + jsval) \<times> plugin_state" where
  "executeBody w config hc operation payload s =
     (if operation \<in> set conversationOperations then
        (case handleConversationOperation w operation payload s of
           (Inl e, s') \<Rightarrow> (Inl e, s')
         | (Inr result, s') \<Rightarrow> (case wrapResult w operation result s' of (r, s'') \<Rightarrow> (Inr r, s'')))
      else if operation = ''initializeAgent'' then
        (case handleInitializeAgent w payload s of
           (Inl e, s') \<Rightarrow> (Inl e, s')
         | (Inr initialised, s') \<Rightarrow>
             (case wrapResult w operation initialised s' of (r, s'') \<Rightarrow> (Inr r, s'')))
      else
        (case lookupDefinition operation of
           Missing \<Rightarrow> (Inl (Error (''Unsupported registry broker operation: '' @ operation)), s)
         | Own (custom schema handler) \<Rightarrow>
             (case parse schema payload of
                Inl e \<Rightarrow> (Inl e, s)
              | Inr parsed \<Rightarrow>
                  (case handler parsed of
                     Inl e \<Rightarrow> (Inl e, s)
                   | Inr customResult \<Rightarrow>
                       (case wrapResult w operation customResult s of (r, s') \<Rightarrow> (Inr r, s'))))
         | Own d \<Rightarrow>
             (case getClient w config (Some \<lparr>hederaClient = hc\<rparr>) s of
                (Inl e, s') \<Rightarrow> (Inl e, s')
              | (Inr c, s') \<Rightarrow>
                  (let target = resolveTarget c (definitionPath d)
                   in case target of
                        JFun f \<Rightarrow> invokeDefinition w d operation payload c target s'
                      | _ \<Rightarrow>
                          (Inl (Error (''Method \"'' @ definitionPath d
                                       @ ''\" is unavailable on the client'')), s')))
         | Inherited \<Rightarrow>
             (case getClient w config (Some \<lparr>hederaClient = hc\<rparr>) s of
                (Inl e, s') \<Rightarrow> (Inl e, s')
              | (Inr c, s') \<Rightarrow>
                  (Inl (TypeError ''Cannot read properties of undefined (reading 'split')''), s'))))"

text \<open>
  \<open>execute\<close>: the input is parsed outside the \<open>try\<close>; a \<open>RegistryBrokerParseError\<close> of the
  body becomes a result, any other error is thrown again.
\<close>

definition execute ::
  "world \<Rightarrow> RegistryBrokerPluginConfiguration option \<Rightarrow> HederaOperatorClient option
     \<Rightarrow> jsval \<Rightarrow> plugin_state \<Rightarrow> (js_error + jsval) \<times> plugin_state" where
  "execute w config hc rawInput s =
     (case parse registryBrokerInputSchema rawInput of
        Inl e \<Rightarrow> (Inl e, s)
      | Inr parsedInput \<Rightarrow>
          (let operation = stringOf (getProp parsedInput ''operation'');
               payload = getProp parsedInput ''payload''
           in case executeBody w config hc operation payload s of
                (Inl (RegistryBrokerParseError message rawValue), s') \<Rightarrow>
                  (Inr (JObj [(''success'', JBool True),
                              (''operation'', JStr operation),
                              (''result'',
                                 JObj [(''parsed'', JBool False),
                                       (''error'', JStr message),
                                       (''raw'', nullish rawValue JNull)])]), s')
              | (r, s') \<Rightarrow> (r, s')))"

section \<open>The specification's words for ledger credential resolution\<close>

text \<open>The value of an environment variable that is set and non-empty after trimming.\<close>

definition envVar :: "world \<Rightarrow> string \<Rightarrow> string option" where
  "envVar w k =
     (case process_env w k of
        None \<Rightarrow> None
      | Some v \<Rightarrow> if trim v = [] then None else Some (trim v))"

text \<open>The first of two optional values that is present.\<close>

definition orElse :: "'a option \<Rightarrow> 'a option \<Rightarrow> 'a option" where
  "orElse a b = (case a of Some x \<Rightarrow> Some x | None \<Rightarrow> b)"

text \<open>
  The network taken from \<open>HEDERA_NETWORK\<close>: lower-cased and prefixed with \<open>hedera:\<close>
  unless already so prefixed; the default when the variable is unset or blank depends on
  the credential pair.
\<close>

definition spec_envNetwork :: "world \<Rightarrow> bool \<Rightarrow> string" where
  "spec_envNetwork w mainnetSet =
     (case envVar w ''HEDERA_NETWORK'' of
        None \<Rightarrow> if mainnetSet then ''hedera:mainnet'' else ''hedera:testnet''
      | Some v \<Rightarrow>
          if startsWith (toLowerCase v) ''hedera:'' then toLowerCase v
          else ''hedera:'' @ toLowerCase v)"

definition envCredentials :: "string \<Rightarrow> string \<Rightarrow> string \<Rightarrow> RegistryBrokerLedgerOptions" where
  "envCredentials a k n =
     \<lparr>accountId = a, network = Some n, hederaPrivateKey = Some k, label = None, sign = None,
      otherFields = [], autoAuthenticate = None\<rparr>"

text \<open>The operator pair, with its per-variable fallbacks, before the mainnet pair.\<close>

definition spec_ledgerOptionsFromEnv :: "world \<Rightarrow> RegistryBrokerLedgerOptions option" where
  "spec_ledgerOptionsFromEnv w =
     (case (orElse (envVar w ''HEDERA_OPERATOR_ID'') (envVar w ''HEDERA_ACCOUNT_ID''),
            orElse (envVar w ''HEDERA_OPERATOR_KEY'') (envVar w ''HEDERA_PRIVATE_KEY'')) of
        (Some a, Some k) \<Rightarrow> Some (envCredentials a k (spec_envNetwork w False))
      | _ \<Rightarrow>
          (case (envVar w ''MAINNET_HEDERA_ACCOUNT_ID'', envVar w ''MAINNET_HEDERA_PRIVATE_KEY'') of
             (Some a, Some k) \<Rightarrow> Some (envCredentials a k (spec_envNetwork w True))
           | _ \<Rightarrow> None))"

definition configLedger :: "RegistryBrokerPluginConfiguration option \<Rightarrow> RegistryBrokerLedgerOptions option" where
  "configLedger config = (case config of None \<Rightarrow> None | Some c \<Rightarrow> ledger c)"

definition contextClient :: "RegistryBrokerClientResolutionContext option \<Rightarrow> HederaOperatorClient option" where
  "contextClient context = (case context of None \<Rightarrow> None | Some c \<Rightarrow> hederaClient c)"


text \<open>
  The network of a Hedera client: \<open>isMainnet\<close>, \<open>isPreviewnet\<close>, \<open>isTestnet\<close> tested in
  that order, then a non-empty \<open>toString\<close>, then \<open>HEDERA_NETWORK\<close>.
\<close>

definition spec_hederaNetwork :: "world \<Rightarrow> HederaOperatorClient \<Rightarrow> string" where
  "spec_hederaNetwork w hc =
     (case ledgerId hc of
        None \<Rightarrow> spec_envNetwork w False
      | Some lid \<Rightarrow>
          if isMainnet lid = CheckReturns True then ''hedera:mainnet''
          else if isPreviewnet lid = CheckReturns True then ''hedera:previewnet''
          else if isTestnet lid = CheckReturns True then ''hedera:testnet''
          else (case ledgerToString lid of
                  Some lbl \<Rightarrow>
                    if lbl \<noteq> [] then normaliseHederaNetwork (Some lbl) False
                    else spec_envNetwork w False
                | None \<Rightarrow> spec_envNetwork w False))"

text \<open>
  The text of an \<open>accountId\<close> or \<open>publicKey\<close>: the string itself, or the string that
  \<open>toString\<close> of the object gives.
\<close>

definition idText :: "id_like \<Rightarrow> string option" where
  "idText v = (case v of IdUndefined \<Rightarrow> None | IdString s \<Rightarrow> Some s | IdObject r \<Rightarrow> r)"

text \<open>The formatted id: its text, trimmed, when that is not empty.\<close>

definition spec_formattedId :: "id_like \<Rightarrow> string option" where
  "spec_formattedId v =
     (case idText v of
        None \<Rightarrow> None
      | Some s \<Rightarrow> if trim s = [] then None else Some (trim s))"



section \<open>Events of client construction\<close>

definition isAuthenticate :: "event \<Rightarrow> bool" where
  "isAuthenticate e = (case e of Authenticate c a \<Rightarrow> True | _ \<Rightarrow> False)"

definition isCreateClient :: "event \<Rightarrow> bool" where
  "isCreateClient e = (case e of CreateClient options \<Rightarrow> True | _ \<Rightarrow> False)"

text \<open>The warning of \<open>initialiseClient\<close> when neither an API key nor ledger credentials exist.\<close>

definition apiKeyWarning :: string where
  "apiKeyWarning = ''[RegistryBrokerPlugin] Neither REGISTRY_BROKER_API_KEY nor ledger credentials were provided. Paid endpoints will fail.''"

text \<open>
  The events that building the client options and resolving the ledger options may cause:
  reads of the environment, calls into the Hedera client, and warnings other than
  \<open>apiKeyWarning\<close>.
\<close>

definition resolutionEvent :: "event \<Rightarrow> bool" where
  "resolutionEvent e =
     (case e of
        EnvRead k \<Rightarrow> True
      | GetOperator \<Rightarrow> True
      | LedgerCheck m \<Rightarrow> True
      | LedgerToString \<Rightarrow> True
      | LogWarn m \<Rightarrow> m \<noteq> apiKeyWarning
      | _ \<Rightarrow> False)"

text \<open>A sequence of \<open>getClient\<close> calls on one provider, one resolution context per call.\<close>

fun getClientCalls ::
  "world \<Rightarrow> RegistryBrokerPluginConfiguration option
     \<Rightarrow> RegistryBrokerClientResolutionContext option list \<Rightarrow> plugin_state
     \<Rightarrow> (js_error + jsval) list \<times> plugin_state" where
  "getClientCalls w config [] s = ([], s)"
| "getClientCalls w config (context # contexts) s =
     (case getClient w config context s of
        (p, s') \<Rightarrow>
          (case getClientCalls w config contexts s' of
             (ps, s'') \<Rightarrow> (p # ps, s'')))"

section \<open>Example inputs\<close>

text \<open>
  A world with the given environment, in which every external call succeeds: the factory
  returns \<open>exampleClient\<close>, whose \<open>chat.start\<close> returns \<open>exampleHandle\<close>. The Hedera client,
  the handle and the signature are those of the package's unit tests.
\<close>

definition exampleHandle :: jsval where
  "exampleHandle =
     JObj [(''sessionId'', JStr ''session-1''), (''mode'', JStr ''plaintext''),
           (''summary'', JNull), (''send'', JFun 10), (''decryptHistoryEntry'', JFun 11)]"

definition exampleClient :: jsval where
  "exampleClient =
     JObj [(''search'', JFun 0), (''resolveUaid'', JFun 1), (''stats'', JFun 2),
           (''registerAgent'', JFun 4),
           (''chat'', JObj [(''start'', JFun 3), (''createSession'', JFun 5)]),
           (''encryption'', JObj [])]"

definition quietWorld :: "(string \<rightharpoonup> string) \<Rightarrow> world" where
  "quietWorld vars =
     \<lparr>process_env = vars,
      createClient = (\<lambda>options. Inr exampleClient),
      authenticateWithLedgerCredentials = (\<lambda>hist c a. None),
      callFunction = (\<lambda>hist f this args.
         if f = 3 then Inr exampleHandle
         else if f = 10 then Inr (JObj [(''ok'', JBool True)])
         else if f = 11 then Inr (JStr ''plaintext'')
         else Inr (JObj [(''hits'', JArr [])])),
      initializeAgent = (\<lambda>hist a. Inr JUndefined),
      randomUUID = (\<lambda>hist. Some ''3b241101-e2bb-4255-8caf-4136c566a962''),
      dateNowBase36 = (\<lambda>hist. ''lx2k9f3a''),
      mathRandomBase36 = (\<lambda>hist. ''4fzzzxjylrx'')\<rparr>"

definition exampleLedgerConfig :: RegistryBrokerLedgerOptions where
  "exampleLedgerConfig =
     \<lparr>accountId = ''0.0.123'', network = Some ''Testnet'', hederaPrivateKey = Some ''302e0101'',
      label = None, sign = None, otherFields = [], autoAuthenticate = None\<rparr>"

definition exampleSigner :: "bytes \<Rightarrow> js_error + bytes" where
  "exampleSigner payload = Inr [0xde, 0xad, 0xbe, 0xef]"

definition exampleOperator :: HederaOperatorLike where
  "exampleOperator =
     \<lparr>operatorAccountId = IdObject (Some ''0.0.111''),
      operatorPublicKey = IdObject (Some ''302a300506032b6570032100''),
      transactionSigner = Some exampleSigner\<rparr>"

definition exampleHederaClient :: HederaOperatorClient where
  "exampleHederaClient =
     \<lparr>ledgerId = Some \<lparr>isMainnet = CheckReturns True, isPreviewnet = CheckReturns False,
                       isTestnet = CheckReturns False, ledgerToString = Some ''mainnet''\<rparr>,
      getOperator = Some (Some exampleOperator)\<rparr>"

definition exampleContext :: "RegistryBrokerClientResolutionContext option" where
  "exampleContext = Some \<lparr>hederaClient = Some exampleHederaClient\<rparr>"

definition mainnetEnv :: "string \<rightharpoonup> string" where
  "mainnetEnv = [''MAINNET_HEDERA_ACCOUNT_ID'' \<mapsto> ''0.0.456'',
                 ''MAINNET_HEDERA_PRIVATE_KEY'' \<mapsto> ''302e01'']"

text \<open>
  An environment whose values are padded with white space, the no-break space among it:
  the operator id is blank, and the network has a capital E with acute accent (U+00C9).
\<close>

definition paddedEnv :: "string \<rightharpoonup> string" where
  "paddedEnv = [''HEDERA_OPERATOR_ID'' \<mapsto> [CHR 0xA0],
                ''HEDERA_OPERATOR_KEY'' \<mapsto> ''302e02'',
                ''MAINNET_HEDERA_ACCOUNT_ID'' \<mapsto> '' 0.0.456'' @ [CHR 0xA0],
                ''MAINNET_HEDERA_PRIVATE_KEY'' \<mapsto> ''302e01'',
                ''HEDERA_NETWORK'' \<mapsto> [CHR 0xA0] @ ''Mainnet-'' @ [CHR 0xC9, CHR 0x0A]]"

text \<open>The context of the example with another \<open>accountId\<close> of the operator.\<close>

definition paddedOperatorContext :: "string \<Rightarrow> RegistryBrokerClientResolutionContext option" where
  "paddedOperatorContext a =
     Some \<lparr>hederaClient =
             Some (exampleHederaClient
                     \<lparr>getOperator := Some (Some (exampleOperator\<lparr>operatorAccountId := IdString a\<rparr>))\<rparr>)\<rparr>"


section \<open>The specification's words for the operation tool\<close>

text \<open>The input of the tool for an operation and a payload.\<close>

definition toolInput :: "string \<Rightarrow> jsval \<Rightarrow> jsval" where
  "toolInput operation payload = JObj [(''operation'', JStr operation), (''payload'', payload)]"

text \<open>The calls of client and handle methods among the events.\<close>

definition isInvoke :: "event \<Rightarrow> bool" where
  "isInvoke e = (case e of Invoke target this args \<Rightarrow> True | _ \<Rightarrow> False)"

definition invocations :: "event list \<Rightarrow> event list" where
  "invocations t = filter isInvoke t"

definition isCustom :: "OperationDefinition \<Rightarrow> bool" where
  "isCustom d = (case d of custom schema handler \<Rightarrow> True | _ \<Rightarrow> False)"

definition isParseError :: "js_error \<Rightarrow> bool" where
  "isParseError e = (case e of RegistryBrokerParseError message rawValue \<Rightarrow> True | _ \<Rightarrow> False)"

text \<open>The result \<open>execute\<close> resolves to when the operation throws a \<open>RegistryBrokerParseError\<close>.\<close>

definition parseErrorResult :: "string \<Rightarrow> string \<Rightarrow> jsval \<Rightarrow> jsval" where
  "parseErrorResult operation message rawValue =
     JObj [(''success'', JBool True), (''operation'', JStr operation),
           (''result'', JObj [(''parsed'', JBool False), (''error'', JStr message),
                              (''raw'', nullish rawValue JNull)])]"

text \<open>
  The arguments of the client method for a definition and a payload: none for \<open>noArgs\<close>;
  the named field of the payload parsed by the schema of the field for \<open>string\<close>; the
  parsed payload for \<open>object\<close>; \<open>mapArgs\<close> of the parsed payload for \<open>tuple\<close>; an absent
  payload is \<open>{}\<close>. A payload that fails the schema gives the validation error.
\<close>

definition spec_arguments :: "OperationDefinition \<Rightarrow> jsval \<Rightarrow> js_error + jsval list" where
  "spec_arguments d payload =
     (case d of
        noArgs path \<Rightarrow> Inr []
      | stringArg path field optional \<Rightarrow>
          (case parse (stringArgSchema field optional) (nullish payload (JObj [])) of
             Inl e \<Rightarrow> Inl e
           | Inr parsed \<Rightarrow> Inr [getProp parsed field])
      | objectArg path schema \<Rightarrow>
          (case parse schema (nullish payload (JObj [])) of
             Inl e \<Rightarrow> Inl e
           | Inr parsed \<Rightarrow> Inr [parsed])
      | tupleArg path schema mapArgs \<Rightarrow>
          (case parse schema (nullish payload (JObj [])) of
             Inl e \<Rightarrow> Inl e
           | Inr parsed \<Rightarrow> Inr (mapArgs parsed))
      | custom schema handler \<Rightarrow> Inr [])"




section \<open>Example runs of the tool\<close>

text \<open>A world in which every client and handle method throws the given error.\<close>

definition failingWorld :: "js_error \<Rightarrow> world" where
  "failingWorld e = (quietWorld Map.empty)\<lparr>callFunction := (\<lambda>hist f this args. Inl e)\<rparr>"

text \<open>A world in which the client factory throws.\<close>

definition brokenFactoryWorld :: world where
  "brokenFactoryWorld =
     (quietWorld Map.empty)\<lparr>createClient := (\<lambda>options. Inl (Error ''factory failed''))\<rparr>"

text \<open>
  A world with ledger credentials in the environment, in which the factory returns a client
  that has the method \<open>authenticateWithLedgerCredentials\<close>.
\<close>

definition ledgerClient :: jsval where
  "ledgerClient = JObj [(''authenticateWithLedgerCredentials'', JFun 6)]"

definition ledgerWorld :: world where
  "ledgerWorld = (quietWorld mainnetEnv)\<lparr>createClient := (\<lambda>options. Inr ledgerClient)\<rparr>"

text \<open>
  The run of the unit test: \<open>chat.start\<close> returns a handle, which is stored;
  \<open>conversation.send\<close> uses it; \<open>conversation.release\<close> removes it.
\<close>

definition exampleHandleId :: string where
  "exampleHandleId = ''3b241101-e2bb-4255-8caf-4136c566a962''"

definition chatStartInput :: jsval where
  "chatStartInput = toolInput ''chat.start'' (JObj [(''uaid'', JStr ''uaid:demo'')])"

definition afterChatStart :: plugin_state where
  "afterChatStart = snd (execute (quietWorld Map.empty) None None chatStartInput initialState)"

definition sendInput :: jsval where
  "sendInput =
     toolInput ''conversation.send''
       (JObj [(''handleId'', JStr exampleHandleId),
              (''payload'', JObj [(''message'', JStr ''ping'')])])"

definition releaseInput :: jsval where
  "releaseInput = toolInput ''conversation.release'' (JObj [(''handleId'', JStr exampleHandleId)])"

definition afterRelease :: plugin_state where
  "afterRelease = snd (execute (quietWorld Map.empty) None None releaseInput afterChatStart)"

section \<open>Properties of ledger credential resolution\<close>

lemmas string_simps =
  trim_def isWhitespace_def toLowerCase_def toLowerChar_def upperCaseLetters_def
  lowerCaseLetters_def startsWith_def

lemma trim_idem: "trim (trim s) = trim s"
proof -
  define ys where "ys = dropWhile isWhitespace s"
  define zs where "zs = dropWhile isWhitespace (rev ys)"
  have t: "trim s = rev zs" by (simp add: trim_def ys_def zs_def)
  have bk: "dropWhile isWhitespace zs = zs" by (simp add: zs_def)
  have fr: "dropWhile isWhitespace (rev zs) = rev zs"
  proof (cases "zs = []")
    case True
    then show ?thesis by simp
  next
    case False
    have "rev ys = takeWhile isWhitespace (rev ys) @ zs"
      by (simp add: zs_def)
    then have "ys = rev zs @ rev (takeWhile isWhitespace (rev ys))"
      by (metis rev_append rev_rev_ident)
    with False have h: "hd (rev zs) = hd ys" and ne: "ys \<noteq> []"
      by (metis hd_append2 rev_is_Nil_conv, metis Nil_is_append_conv rev_is_Nil_conv)
    from ne have "\<not> isWhitespace (hd ys)"
      unfolding ys_def by (simp add: hd_dropWhile)
    with h False show ?thesis by (cases "rev zs") auto
  qed
  show ?thesis
    unfolding t
    by (simp add: trim_def fr bk)
qed

lemma env_eq: "env w k = (envVar w k, [EnvRead k])"
  by (simp add: env_def envVar_def Let_def split: option.splits)

lemma envVar_trimmed: "envVar w k = Some v \<Longrightarrow> trim v = v \<and> v \<noteq> []"
  by (auto simp: envVar_def trim_idem split: option.splits if_splits)

lemma normalise_envVar:
  "normaliseHederaNetwork (envVar w ''HEDERA_NETWORK'') pm = spec_envNetwork w pm"
proof (cases "envVar w ''HEDERA_NETWORK''")
  case None
  then show ?thesis by (simp add: normaliseHederaNetwork_def spec_envNetwork_def)
next
  case (Some v)
  with envVar_trimmed have "trim v = v" "v \<noteq> []" by blast+
  with Some show ?thesis by (simp add: normaliseHederaNetwork_def spec_envNetwork_def Let_def)
qed

lemma fst_envWithFallback:
  "f \<noteq> [] \<Longrightarrow> fst (envWithFallback w k (Some f)) = orElse (envVar w k) (envVar w f)"
  "fst (envWithFallback w k None) = envVar w k"
  by (auto simp: envWithFallback_def env_eq orElse_def split: option.splits)

lemma fst_pickLedgerEnvSet:
  "fst (pickLedgerEnvSet w p) =
     (case (fst (envWithFallback w (accountKey p) (fallbackAccountKey p)),
            fst (envWithFallback w (privateKey p) (fallbackPrivateKey p))) of
        (Some a, Some k) \<Rightarrow> Some \<lparr>setAccountId = a, setPrivateKey = k, setPreferMainnet = preferMainnet p\<rparr>
      | _ \<Rightarrow> None)"
  by (simp add: pickLedgerEnvSet_def split: prod.splits option.splits)

lemma pickLedgerEnvSet_operator:
  "fst (pickLedgerEnvSet w
          \<lparr>accountKey = ''HEDERA_OPERATOR_ID'', privateKey = ''HEDERA_OPERATOR_KEY'',
           fallbackAccountKey = Some ''HEDERA_ACCOUNT_ID'',
           fallbackPrivateKey = Some ''HEDERA_PRIVATE_KEY'', preferMainnet = False\<rparr>) =
     (case (orElse (envVar w ''HEDERA_OPERATOR_ID'') (envVar w ''HEDERA_ACCOUNT_ID''),
            orElse (envVar w ''HEDERA_OPERATOR_KEY'') (envVar w ''HEDERA_PRIVATE_KEY'')) of
        (Some a, Some k) \<Rightarrow> Some \<lparr>setAccountId = a, setPrivateKey = k, setPreferMainnet = False\<rparr>
      | _ \<Rightarrow> None)"
  by (simp add: fst_pickLedgerEnvSet fst_envWithFallback split: option.splits)

lemma pickLedgerEnvSet_mainnet:
  "fst (pickLedgerEnvSet w
          \<lparr>accountKey = ''MAINNET_HEDERA_ACCOUNT_ID'',
           privateKey = ''MAINNET_HEDERA_PRIVATE_KEY'',
           fallbackAccountKey = None, fallbackPrivateKey = None, preferMainnet = True\<rparr>) =
     (case (envVar w ''MAINNET_HEDERA_ACCOUNT_ID'', envVar w ''MAINNET_HEDERA_PRIVATE_KEY'') of
        (Some a, Some k) \<Rightarrow> Some \<lparr>setAccountId = a, setPrivateKey = k, setPreferMainnet = True\<rparr>
      | _ \<Rightarrow> None)"
  by (simp add: fst_pickLedgerEnvSet fst_envWithFallback split: option.splits)


text \<open>
  Claim C5. Credentials from the environment: the operator pair \<open>HEDERA_OPERATOR_ID\<close> /
  \<open>HEDERA_OPERATOR_KEY\<close>, each variable falling back to \<open>HEDERA_ACCOUNT_ID\<close> /
  \<open>HEDERA_PRIVATE_KEY\<close>, comes before the pair \<open>MAINNET_HEDERA_ACCOUNT_ID\<close> /
  \<open>MAINNET_HEDERA_PRIVATE_KEY\<close>; a pair is used only when its account id and its private
  key are both non-empty after trimming; the network is \<open>HEDERA_NETWORK\<close> in lower case,
  prefixed with \<open>hedera:\<close> unless it already is, and when \<open>HEDERA_NETWORK\<close> is unset or
  blank it is \<open>hedera:testnet\<close> for the operator pair and \<open>hedera:mainnet\<close> for the mainnet
  pair. That is \<open>spec_ledgerOptionsFromEnv\<close>, and the code computes it.
\<close>

theorem deriveLedgerOptionsFromEnv_spec:
  "fst (deriveLedgerOptionsFromEnv w) = spec_ledgerOptionsFromEnv w"
proof (cases "pickLedgerEnvSet w
          \<lparr>accountKey = ''HEDERA_OPERATOR_ID'', privateKey = ''HEDERA_OPERATOR_KEY'',
           fallbackAccountKey = Some ''HEDERA_ACCOUNT_ID'',
           fallbackPrivateKey = Some ''HEDERA_PRIVATE_KEY'', preferMainnet = False\<rparr>")
  case operator: (Pair operatorCredentials t1)
  show ?thesis
  proof (cases "pickLedgerEnvSet w
          \<lparr>accountKey = ''MAINNET_HEDERA_ACCOUNT_ID'',
           privateKey = ''MAINNET_HEDERA_PRIVATE_KEY'',
           fallbackAccountKey = None, fallbackPrivateKey = None, preferMainnet = True\<rparr>")
    case mainnet: (Pair mainnetCredentials t2)
    from operator mainnet pickLedgerEnvSet_operator[of w] pickLedgerEnvSet_mainnet[of w]
    show ?thesis
      by (auto simp: deriveLedgerOptionsFromEnv_def spec_ledgerOptionsFromEnv_def env_eq
          normalise_envVar envCredentials_def split: option.splits)
  qed
qed

theorem deriveLedgerOptionsFromEnv_spec_witness:
  "fst (deriveLedgerOptionsFromEnv (quietWorld mainnetEnv)) =
     Some (envCredentials ''0.0.456'' ''302e01'' ''hedera:mainnet'')
   \<and> fst (deriveLedgerOptionsFromEnv (quietWorld paddedEnv)) =
       Some (envCredentials ''0.0.456'' ''302e01'' (''hedera:mainnet-'' @ [CHR 0xE9]))"
  using deriveLedgerOptionsFromEnv_spec[of "quietWorld mainnetEnv"]
    deriveLedgerOptionsFromEnv_spec[of "quietWorld paddedEnv"]
  by (simp add: quietWorld_def mainnetEnv_def paddedEnv_def spec_ledgerOptionsFromEnv_def
      envVar_def orElse_def spec_envNetwork_def string_simps)

lemma deriveNetwork_fst: "fst (deriveNetworkFromHederaClient w hc) = spec_hederaNetwork w hc"
  by (auto simp: deriveNetworkFromHederaClient_def spec_hederaNetwork_def env_eq normalise_envVar
      invokeLedgerCheck_def Let_def split: option.splits prod.splits bool.splits ledger_check.splits)




lemma formatAccountId_Some:
  "formatAccountId v = Some a \<Longrightarrow> v \<noteq> IdUndefined \<and> v \<noteq> IdString []"
  by (auto simp: formatAccountId_def trim_def split: id_like.splits option.splits)

lemma deriveHedera_success:
  assumes "contextClient context = Some hc" "getOperator hc = Some (Some operator)"
    "transactionSigner operator = Some signer"
    "formatAccountId (operatorAccountId operator) = Some acc"
  shows "fst (deriveLedgerOptionsFromHederaClient w context) =
           Some \<lparr>accountId = acc, network = Some (spec_hederaNetwork w hc),
                 hederaPrivateKey = None, label = Some ''Hedera Agent Kit operator'',
                 sign = Some (signWith signer (formatAccountId (operatorPublicKey operator))),
                 otherFields = [], autoAuthenticate = Some True\<rparr>"
  using assms formatAccountId_Some[OF assms(4)] deriveNetwork_fst[of w hc]
  by (auto simp: deriveLedgerOptionsFromHederaClient_def contextClient_def Let_def
      split: option.splits prod.splits)

lemma deriveHedera_Some_iff:
  "fst (deriveLedgerOptionsFromHederaClient w context) \<noteq> None \<longleftrightarrow>
     (\<exists>hc operator signer acc.
        contextClient context = Some hc \<and> getOperator hc = Some (Some operator)
        \<and> transactionSigner operator = Some signer
        \<and> formatAccountId (operatorAccountId operator) = Some acc)"
proof
  assume "fst (deriveLedgerOptionsFromHederaClient w context) \<noteq> None"
  then show "\<exists>hc operator signer acc.
        contextClient context = Some hc \<and> getOperator hc = Some (Some operator)
        \<and> transactionSigner operator = Some signer
        \<and> formatAccountId (operatorAccountId operator) = Some acc"
    by (auto simp: deriveLedgerOptionsFromHederaClient_def contextClient_def Let_def
      split: option.splits prod.splits if_splits)
next
  assume "\<exists>hc operator signer acc.
        contextClient context = Some hc \<and> getOperator hc = Some (Some operator)
        \<and> transactionSigner operator = Some signer
        \<and> formatAccountId (operatorAccountId operator) = Some acc"
  then show "fst (deriveLedgerOptionsFromHederaClient w context) \<noteq> None"
    using deriveHedera_success by fastforce
qed



lemma resolve_env:
  "configLedger config = None \<Longrightarrow> fst (deriveLedgerOptionsFromHederaClient w context) = None \<Longrightarrow>
     resolveLedgerOptions w config context =
       (fst (deriveLedgerOptionsFromEnv w),
        snd (deriveLedgerOptionsFromHederaClient w context) @ snd (deriveLedgerOptionsFromEnv w))"
  by (auto simp: resolveLedgerOptions_def configLedger_def split: prod.splits option.splits)




lemma formatAccountId_spec: "formatAccountId v = spec_formattedId v"
  by (simp add: formatAccountId_def spec_formattedId_def idText_def Let_def
      split: id_like.splits option.splits)

lemma spec_formattedId_Some:
  assumes "spec_formattedId v = Some acc"
  shows "acc \<noteq> []" "trim acc = acc" "\<exists>s. idText v = Some s \<and> acc = trim s"
  using assms
  by (auto simp: spec_formattedId_def trim_idem split: option.splits if_splits)

text \<open>
  Claim C6. Derivation from the Hedera client succeeds exactly when the client has a
  \<open>getOperator\<close> function that returns an operator with a \<open>transactionSigner\<close> function
  and an \<open>accountId\<close> whose text, trimmed, is not empty (\<open>spec_formattedId\<close>); when it
  fails, resolution (with no \<open>config.ledger\<close>) falls through to the environment. On success
  the options carry that trimmed, non-empty account id, \<open>autoAuthenticate = true\<close>, the
  network chosen by \<open>isMainnet\<close>, \<open>isPreviewnet\<close>, \<open>isTestnet\<close> in that order, then
  \<open>toString\<close>, then \<open>HEDERA_NETWORK\<close> (\<open>spec_hederaNetwork\<close>), and a \<open>sign\<close> callback
  that passes the UTF-8 bytes of the message to the signer and returns the signature in
  base64 with \<open>signatureKind = 'raw'\<close> and the operator's public key, formatted in the same
  way.
\<close>

theorem deriveLedgerOptionsFromHederaClient_spec:
  "(fst (deriveLedgerOptionsFromHederaClient w context) \<noteq> None \<longleftrightarrow>
      (\<exists>hc operator signer acc.
         contextClient context = Some hc \<and> getOperator hc = Some (Some operator)
         \<and> transactionSigner operator = Some signer
         \<and> spec_formattedId (operatorAccountId operator) = Some acc))
   \<and> (fst (deriveLedgerOptionsFromHederaClient w context) = None \<and> configLedger config = None \<longrightarrow>
        fst (resolveLedgerOptions w config context) = fst (deriveLedgerOptionsFromEnv w))
   \<and> (\<forall>hc operator signer acc.
        contextClient context = Some hc \<and> getOperator hc = Some (Some operator)
        \<and> transactionSigner operator = Some signer
        \<and> spec_formattedId (operatorAccountId operator) = Some acc \<longrightarrow>
        (\<exists>opts f.
           fst (deriveLedgerOptionsFromHederaClient w context) = Some opts
           \<and> accountId opts = acc
           \<and> autoAuthenticate opts = Some True
           \<and> network opts = Some (spec_hederaNetwork w hc)
           \<and> sign opts = Some f
           \<and> (\<forall>message.
                f message =
                  (case signer (utf8Encode message) of
                     Inl e \<Rightarrow> Inl e
                   | Inr signatureBytes \<Rightarrow>
                       Inr \<lparr>signature = base64Encode signatureBytes, signatureKind = ''raw'',
                            signerPublicKey = spec_formattedId (operatorPublicKey operator)\<rparr>))))
   \<and> (\<forall>opts. fst (deriveLedgerOptionsFromHederaClient w context) = Some opts \<longrightarrow>
        accountId opts \<noteq> [] \<and> trim (accountId opts) = accountId opts)"
proof (intro conjI allI impI)
  show iff: "fst (deriveLedgerOptionsFromHederaClient w context) \<noteq> None \<longleftrightarrow>
      (\<exists>hc operator signer acc.
         contextClient context = Some hc \<and> getOperator hc = Some (Some operator)
         \<and> transactionSigner operator = Some signer
         \<and> spec_formattedId (operatorAccountId operator) = Some acc)"
    using deriveHedera_Some_iff[of w "context"] by (simp add: formatAccountId_spec)
  fix opts
  assume s: "fst (deriveLedgerOptionsFromHederaClient w context) = Some opts"
  with iff obtain hc operator signer acc where
    a: "contextClient context = Some hc" "getOperator hc = Some (Some operator)"
       "transactionSigner operator = Some signer"
       "spec_formattedId (operatorAccountId operator) = Some acc"
    by auto
  from a have "accountId opts = acc"
    using deriveHedera_success[of "context" hc operator signer acc w] s
    by (simp add: formatAccountId_spec)
  with spec_formattedId_Some[OF a(4)]
  show "accountId opts \<noteq> []" "trim (accountId opts) = accountId opts" by simp_all
next
  assume "fst (deriveLedgerOptionsFromHederaClient w context) = None \<and> configLedger config = None"
  then show "fst (resolveLedgerOptions w config context) = fst (deriveLedgerOptionsFromEnv w)"
    by (simp add: resolve_env)
next
  fix hc operator signer acc
  assume a: "contextClient context = Some hc \<and> getOperator hc = Some (Some operator)
        \<and> transactionSigner operator = Some signer
        \<and> spec_formattedId (operatorAccountId operator) = Some acc"
  then have "fst (deriveLedgerOptionsFromHederaClient w context) =
           Some \<lparr>accountId = acc, network = Some (spec_hederaNetwork w hc),
                 hederaPrivateKey = None, label = Some ''Hedera Agent Kit operator'',
                 sign = Some (signWith signer (spec_formattedId (operatorPublicKey operator))),
                 otherFields = [], autoAuthenticate = Some True\<rparr>"
    using deriveHedera_success[of "context" hc operator signer acc w]
    by (simp add: formatAccountId_spec)
  then show "\<exists>opts f.
           fst (deriveLedgerOptionsFromHederaClient w context) = Some opts
           \<and> accountId opts = acc
           \<and> autoAuthenticate opts = Some True
           \<and> network opts = Some (spec_hederaNetwork w hc)
           \<and> sign opts = Some f
           \<and> (\<forall>message.
                f message =
                  (case signer (utf8Encode message) of
                     Inl e \<Rightarrow> Inl e
                   | Inr signatureBytes \<Rightarrow>
                       Inr \<lparr>signature = base64Encode signatureBytes, signatureKind = ''raw'',
                            signerPublicKey = spec_formattedId (operatorPublicKey operator)\<rparr>))"
    by (simp add: signWith_def)
qed

text \<open>
  The operator of the unit test; an operator whose account id is padded with white space;
  and one whose account id is blank, for which nothing is derived.
\<close>

theorem deriveLedgerOptionsFromHederaClient_spec_witness:
  "(\<exists>opts f. fst (deriveLedgerOptionsFromHederaClient (quietWorld Map.empty) exampleContext) = Some opts
     \<and> accountId opts = ''0.0.111''
     \<and> autoAuthenticate opts = Some True
     \<and> network opts = Some ''hedera:mainnet''
     \<and> sign opts = Some f
     \<and> f ''hello world'' =
         Inr \<lparr>signature = ''3q2+7w=='', signatureKind = ''raw'',
              signerPublicKey = Some ''302a300506032b6570032100''\<rparr>)
   \<and> (\<exists>opts. fst (deriveLedgerOptionsFromHederaClient (quietWorld Map.empty)
                      (paddedOperatorContext ([CHR 0xA0] @ '' 0.0.111 '' @ [CHR 0x09]))) = Some opts
          \<and> accountId opts = ''0.0.111'')
   \<and> fst (deriveLedgerOptionsFromHederaClient (quietWorld Map.empty)
             (paddedOperatorContext [CHR 0xA0, CHR '' ''])) = None"
proof -
  have h: "contextClient exampleContext = Some exampleHederaClient
      \<and> getOperator exampleHederaClient = Some (Some exampleOperator)
      \<and> transactionSigner exampleOperator = Some exampleSigner
      \<and> spec_formattedId (operatorAccountId exampleOperator) = Some ''0.0.111''"
    by (simp add: contextClient_def exampleContext_def exampleHederaClient_def exampleOperator_def
        spec_formattedId_def idText_def string_simps)
  have net: "spec_hederaNetwork (quietWorld Map.empty) exampleHederaClient = ''hedera:mainnet''"
    by (simp add: spec_hederaNetwork_def exampleHederaClient_def)
  have pk: "spec_formattedId (operatorPublicKey exampleOperator) = Some ''302a300506032b6570032100''"
    by (simp add: exampleOperator_def spec_formattedId_def idText_def string_simps)
  have sg: "(case exampleSigner (utf8Encode ''hello world'') of
              Inl e \<Rightarrow> Inl e
            | Inr signatureBytes \<Rightarrow>
                Inr \<lparr>signature = base64Encode signatureBytes, signatureKind = ''raw'',
                     signerPublicKey = spec_formattedId (operatorPublicKey exampleOperator)\<rparr>) =
            Inr \<lparr>signature = ''3q2+7w=='', signatureKind = ''raw'',
              signerPublicKey = Some ''302a300506032b6570032100''\<rparr>"
    by (simp add: exampleSigner_def base64Char_def base64Alphabet_def pk)
  note th = deriveLedgerOptionsFromHederaClient_spec[of "quietWorld Map.empty" _ None]
  from th[of exampleContext] h
  obtain opts f where
    "fst (deriveLedgerOptionsFromHederaClient (quietWorld Map.empty) exampleContext) = Some opts"
    "accountId opts = ''0.0.111''" "autoAuthenticate opts = Some True"
    "network opts = Some (spec_hederaNetwork (quietWorld Map.empty) exampleHederaClient)"
    "sign opts = Some f"
    "\<forall>message. f message =
                  (case exampleSigner (utf8Encode message) of
                     Inl e \<Rightarrow> Inl e
                   | Inr signatureBytes \<Rightarrow>
                       Inr \<lparr>signature = base64Encode signatureBytes, signatureKind = ''raw'',
                            signerPublicKey = spec_formattedId (operatorPublicKey exampleOperator)\<rparr>)"
    by blast
  moreover from this have "f ''hello world'' =
         Inr \<lparr>signature = ''3q2+7w=='', signatureKind = ''raw'',
              signerPublicKey = Some ''302a300506032b6570032100''\<rparr>"
    using sg by simp
  ultimately have one: "\<exists>opts f. fst (deriveLedgerOptionsFromHederaClient (quietWorld Map.empty) exampleContext) = Some opts
     \<and> accountId opts = ''0.0.111''
     \<and> autoAuthenticate opts = Some True
     \<and> network opts = Some ''hedera:mainnet''
     \<and> sign opts = Some f
     \<and> f ''hello world'' =
         Inr \<lparr>signature = ''3q2+7w=='', signatureKind = ''raw'',
              signerPublicKey = Some ''302a300506032b6570032100''\<rparr>"
    using net by (intro exI[of _ opts] exI[of _ f]) simp
  let ?op = "\<lambda>a. exampleOperator\<lparr>operatorAccountId := IdString a\<rparr>"
  let ?hc = "\<lambda>a. exampleHederaClient\<lparr>getOperator := Some (Some (?op a))\<rparr>"
  let ?pad = "[CHR 0xA0] @ '' 0.0.111 '' @ [CHR 0x09]"
  have h2: "contextClient (paddedOperatorContext ?pad) = Some (?hc ?pad)
      \<and> getOperator (?hc ?pad) = Some (Some (?op ?pad))
      \<and> transactionSigner (?op ?pad) = Some exampleSigner
      \<and> spec_formattedId (operatorAccountId (?op ?pad)) = Some ''0.0.111''"
    by (simp add: contextClient_def paddedOperatorContext_def exampleOperator_def
        spec_formattedId_def idText_def string_simps)
  from th[of "paddedOperatorContext ?pad", THEN conjunct2, THEN conjunct2, THEN conjunct1,
      rule_format, OF h2]
  have two: "\<exists>opts. fst (deriveLedgerOptionsFromHederaClient (quietWorld Map.empty)
                      (paddedOperatorContext ?pad)) = Some opts
          \<and> accountId opts = ''0.0.111''"
    by blast
  have blank: "spec_formattedId (IdString [CHR 0xA0, CHR '' '']) = None"
    by (simp add: spec_formattedId_def idText_def string_simps)
  have "\<not> (\<exists>hc operator signer acc.
         contextClient (paddedOperatorContext [CHR 0xA0, CHR '' '']) = Some hc
         \<and> getOperator hc = Some (Some operator)
         \<and> transactionSigner operator = Some signer
         \<and> spec_formattedId (operatorAccountId operator) = Some acc)"
    by (auto simp: contextClient_def paddedOperatorContext_def blank)
  with th[of "paddedOperatorContext [CHR 0xA0, CHR '' '']", THEN conjunct1]
  have three: "fst (deriveLedgerOptionsFromHederaClient (quietWorld Map.empty)
             (paddedOperatorContext [CHR 0xA0, CHR '' ''])) = None"
    by blast
  from one two three show ?thesis by blast
qed

section \<open>Properties of client construction\<close>

lemma env_resolutionEvent: "list_all resolutionEvent (snd (env w k))"
  by (simp add: env_def resolutionEvent_def)

lemma envWithFallback_resolutionEvent:
  "list_all resolutionEvent (snd (envWithFallback w k f))"
  by (simp add: envWithFallback_def split_def env_resolutionEvent split: option.splits)

lemma pickLedgerEnvSet_resolutionEvent:
  "list_all resolutionEvent (snd (pickLedgerEnvSet w p))"
  by (simp add: pickLedgerEnvSet_def split_def envWithFallback_resolutionEvent
      split: option.splits)

lemma deriveEnv_resolutionEvent:
  "list_all resolutionEvent (snd (deriveLedgerOptionsFromEnv w))"
  by (simp add: deriveLedgerOptionsFromEnv_def split_def pickLedgerEnvSet_resolutionEvent
      env_resolutionEvent split: option.splits)

lemma invokeLedgerCheck_resolutionEvent:
  "list_all resolutionEvent (snd (invokeLedgerCheck c m))"
  by (cases c) (simp_all add: invokeLedgerCheck_def resolutionEvent_def)

lemma deriveNetwork_resolutionEvent:
  "list_all resolutionEvent (snd (deriveNetworkFromHederaClient w hc))"
  by (simp add: deriveNetworkFromHederaClient_def split_def invokeLedgerCheck_resolutionEvent
      env_resolutionEvent resolutionEvent_def split: option.splits bool.splits)

lemma deriveHedera_resolutionEvent:
  "list_all resolutionEvent (snd (deriveLedgerOptionsFromHederaClient w context))"
  by (simp add: deriveLedgerOptionsFromHederaClient_def split_def Let_def
      deriveNetwork_resolutionEvent resolutionEvent_def apiKeyWarning_def split: option.splits)

lemma resolve_resolutionEvent:
  "list_all resolutionEvent (snd (resolveLedgerOptions w config context))"
  by (simp add: resolveLedgerOptions_def split_def deriveHedera_resolutionEvent
      deriveEnv_resolutionEvent split: option.splits)

lemma buildClientOptions_resolutionEvent:
  "list_all resolutionEvent (snd (buildClientOptions w config))"
  by (simp add: buildClientOptions_def split_def Let_def env_resolutionEvent
      split: option.splits)

lemma normalizeSecret_nonempty: "normalizeSecret v \<noteq> Some []"
  by (auto simp: normalizeSecret_def Let_def split: option.splits)

lemma buildClientOptions_apiKey: "apiKey (fst (buildClientOptions w config)) \<noteq> Some []"
  using normalizeSecret_nonempty
  by (auto simp: buildClientOptions_def Let_def split: option.splits prod.splits if_splits)

lemma filter_resolution:
  assumes "list_all resolutionEvent t"
  shows "filter isAuthenticate t = []" "filter isCreateClient t = []" "LogWarn apiKeyWarning \<notin> set t"
proof -
  have "\<not> isAuthenticate e \<and> \<not> isCreateClient e \<and> e \<noteq> LogWarn apiKeyWarning" if "resolutionEvent e" for e
    using that by (cases e) (simp_all add: resolutionEvent_def isAuthenticate_def isCreateClient_def)
  with assms show "filter isAuthenticate t = []" "filter isCreateClient t = []" "LogWarn apiKeyWarning \<notin> set t"
    by (auto simp: filter_empty_conv list_all_iff)
qed

lemmas provider_eval =
  buildClientOptions_def resolveLedgerOptions_def deriveLedgerOptionsFromHederaClient_def
  deriveLedgerOptionsFromEnv_def pickLedgerEnvSet_def envWithFallback_def env_def
  normalizeSecret_def normaliseHederaNetwork_def normalizeLedgerConfig_def
  deriveNetworkFromHederaClient_def invokeLedgerCheck_def formatAccountId_def
  RegistryBrokerClientOptions.truncate_def LedgerCredentialAuthOptions.truncate_def
  quietWorld_def mainnetEnv_def exampleContext_def exampleHederaClient_def exampleOperator_def
  exampleLedgerConfig_def string_simps

lemma initialiseClient_unfold:
  assumes b: "buildClientOptions w config = (options, t1)"
      and c: "createClient w options = Inr c"
      and r: "resolveLedgerOptions w config context = (resolved, t2)"
  shows "initialiseClient w config hist context =
     (case resolved of
        Some l \<Rightarrow>
          if autoAuthenticate l = Some False then
            (Inr c, t1 @ [CreateClient options] @ t2
               @ [LogInfo ''[RegistryBrokerPlugin] Ledger authentication disabled via configuration.''])
          else
            (case authenticateWithLedgerCredentials w (hist @ t1 @ [CreateClient options] @ t2) c
                    (LedgerCredentialAuthOptions.truncate l) of
               Some e \<Rightarrow>
                 (Inl e, t1 @ [CreateClient options] @ t2
                    @ [Authenticate c (LedgerCredentialAuthOptions.truncate l)])
             | None \<Rightarrow>
                 (Inr c, t1 @ [CreateClient options] @ t2
                    @ [Authenticate c (LedgerCredentialAuthOptions.truncate l),
                       LogInfo (''[RegistryBrokerPlugin] Authenticated with ledger account ''
                                @ accountId l @ ''.'')]))
      | None \<Rightarrow>
          (Inr c, t1 @ [CreateClient options] @ t2
             @ (if apiKey options = None then [LogWarn apiKeyWarning] else [])))"
proof -
  have k: "apiKey options \<noteq> Some []"
    using buildClientOptions_apiKey[of w config] b by simp
  show ?thesis
    using k by (simp add: initialiseClient_def b c r Let_def apiKeyWarning_def
        LedgerCredentialAuthOptions.truncate_def split: option.splits)
qed

text \<open>
  Claim C7. In the first construction of the client, once the factory has made the client:
  when ledger options were resolved and their \<open>autoAuthenticate\<close> is not \<open>false\<close>,
  \<open>authenticateWithLedgerCredentials\<close> is called on the new client exactly once, with the
  resolved options without the \<open>autoAuthenticate\<close> field, and construction settles as that
  call does; when \<open>autoAuthenticate\<close> is \<open>false\<close>, or no ledger options were resolved, it is
  never called, and in the latter case the warning is logged exactly when no API key was
  resolved.
\<close>

theorem initialiseClient_authentication:
  assumes b: "buildClientOptions w config = (options, t1)"
      and c: "createClient w options = Inr c"
      and r: "resolveLedgerOptions w config context = (resolved, t2)"
  shows
    "(\<forall>l. resolved = Some l \<and> autoAuthenticate l \<noteq> Some False \<longrightarrow>
        filter isAuthenticate (snd (initialiseClient w config hist context)) =
          [Authenticate c (LedgerCredentialAuthOptions.truncate l)]
        \<and> fst (initialiseClient w config hist context) =
            (case authenticateWithLedgerCredentials w (hist @ t1 @ [CreateClient options] @ t2) c
                    (LedgerCredentialAuthOptions.truncate l) of
               Some e \<Rightarrow> Inl e
             | None \<Rightarrow> Inr c))
     \<and> (\<forall>l. resolved = Some l \<and> autoAuthenticate l = Some False \<longrightarrow>
          filter isAuthenticate (snd (initialiseClient w config hist context)) = []
          \<and> fst (initialiseClient w config hist context) = Inr c)
     \<and> (resolved = None \<longrightarrow>
          filter isAuthenticate (snd (initialiseClient w config hist context)) = []
          \<and> fst (initialiseClient w config hist context) = Inr c
          \<and> (LogWarn ''[RegistryBrokerPlugin] Neither REGISTRY_BROKER_API_KEY nor ledger credentials were provided. Paid endpoints will fail.''
                \<in> set (snd (initialiseClient w config hist context))
              \<longleftrightarrow> apiKey options = None))"
proof -
  have t1: "list_all resolutionEvent t1"
    using buildClientOptions_resolutionEvent[of w config] b by simp
  have t2: "list_all resolutionEvent t2"
    using resolve_resolutionEvent[of w config "context"] r by simp
  note f = filter_resolution[OF t1] filter_resolution[OF t2]
  note u = initialiseClient_unfold[OF b c r, of hist]
  have a: "isAuthenticate (Authenticate x y)" "\<not> isAuthenticate (LogInfo m)"
    "\<not> isAuthenticate (LogWarn m)" "\<not> isAuthenticate (CreateClient o')" for x y m o'
    by (simp_all add: isAuthenticate_def)
  show ?thesis
  proof (intro conjI allI impI)
    fix l assume l: "resolved = Some l \<and> autoAuthenticate l \<noteq> Some False"
    then show "filter isAuthenticate (snd (initialiseClient w config hist context)) =
          [Authenticate c (LedgerCredentialAuthOptions.truncate l)]"
      by (simp add: u f a split: option.splits)
    from l show "fst (initialiseClient w config hist context) =
            (case authenticateWithLedgerCredentials w (hist @ t1 @ [CreateClient options] @ t2) c
                    (LedgerCredentialAuthOptions.truncate l) of
               Some e \<Rightarrow> Inl e
             | None \<Rightarrow> Inr c)"
      by (simp add: u split: option.splits)
  next
    fix l assume l: "resolved = Some l \<and> autoAuthenticate l = Some False"
    then show "filter isAuthenticate (snd (initialiseClient w config hist context)) = []"
      by (simp add: u f a)
    from l show "fst (initialiseClient w config hist context) = Inr c"
      by (simp add: u)
  next
    assume n: "resolved = None"
    then show "filter isAuthenticate (snd (initialiseClient w config hist context)) = []"
      by (simp add: u f a)
    from n show "fst (initialiseClient w config hist context) = Inr c"
      by (simp add: u)
    from n show "LogWarn ''[RegistryBrokerPlugin] Neither REGISTRY_BROKER_API_KEY nor ledger credentials were provided. Paid endpoints will fail.''
                \<in> set (snd (initialiseClient w config hist context))
              \<longleftrightarrow> apiKey options = None"
      using f(3) f(6) by (simp add: u apiKeyWarning_def[symmetric])
  qed
qed

theorem initialiseClient_authentication_witness:
  "filter isAuthenticate (snd (initialiseClient (quietWorld mainnetEnv) None [] None)) =
     [Authenticate exampleClient
        \<lparr>accountId = ''0.0.456'', network = Some ''hedera:mainnet'',
         hederaPrivateKey = Some ''302e01'', label = None, sign = None, otherFields = []\<rparr>]
   \<and> fst (initialiseClient (quietWorld mainnetEnv) None [] None) = Inr exampleClient
   \<and> filter isAuthenticate
        (snd (initialiseClient (quietWorld mainnetEnv)
               (Some \<lparr>client = None,
                      ledger = Some (exampleLedgerConfig\<lparr>autoAuthenticate := Some False\<rparr>)\<rparr>)
               [] exampleContext)) = []
   \<and> filter isAuthenticate (snd (initialiseClient (quietWorld Map.empty) None [] None)) = []
   \<and> LogWarn ''[RegistryBrokerPlugin] Neither REGISTRY_BROKER_API_KEY nor ledger credentials were provided. Paid endpoints will fail.''
        \<in> set (snd (initialiseClient (quietWorld Map.empty) None [] None))"
proof -
  let ?o = "\<lparr>baseUrl = None, apiKey = None, ledgerApiKey = None, otherClientOptions = []\<rparr>"
  let ?t = "[EnvRead ''REGISTRY_BROKER_BASE_URL'', EnvRead ''REGISTRY_BROKER_API_KEY'',
             EnvRead ''REGISTRY_BROKER_LEDGER_KEY'']"
  let ?c = "exampleClient"
  let ?cfg = "Some \<lparr>client = None,
                      ledger = Some (exampleLedgerConfig\<lparr>autoAuthenticate := Some False\<rparr>)\<rparr>"
  have b1: "buildClientOptions (quietWorld mainnetEnv) None = (?o, ?t)"
    and b2: "buildClientOptions (quietWorld mainnetEnv) ?cfg = (?o, ?t)"
    and b3: "buildClientOptions (quietWorld Map.empty) None = (?o, ?t)"
    by (simp_all add: provider_eval)
  have c1: "createClient (quietWorld mainnetEnv) ?o = Inr ?c"
    and c3: "createClient (quietWorld Map.empty) ?o = Inr ?c"
    by (simp_all add: quietWorld_def)
  obtain t1 where r1: "resolveLedgerOptions (quietWorld mainnetEnv) None None =
      (Some \<lparr>accountId = ''0.0.456'', network = Some ''hedera:mainnet'',
         hederaPrivateKey = Some ''302e01'', label = None, sign = None, otherFields = [],
         autoAuthenticate = None\<rparr>, t1)"
    by (simp add: provider_eval)
  have r2: "resolveLedgerOptions (quietWorld mainnetEnv) ?cfg exampleContext =
      (Some (exampleLedgerConfig\<lparr>network := Some ''hedera:testnet'', autoAuthenticate := Some False\<rparr>), [])"
    by (simp add: provider_eval)
  obtain t3 where r3: "resolveLedgerOptions (quietWorld Map.empty) None None = (None, t3)"
    by (simp add: provider_eval)
  have a: "authenticateWithLedgerCredentials (quietWorld mainnetEnv) h c x = None" for h c x
    by (simp add: quietWorld_def)
  show ?thesis
    using initialiseClient_authentication[OF b1 c1 r1, of "[]"]
      initialiseClient_authentication[OF b2 c1 r2, of "[]"]
      initialiseClient_authentication[OF b3 c3 r3, of "[]"]
    by (simp add: a LedgerCredentialAuthOptions.truncate_def)
qed

lemma initialiseClient_createClient_once:
  "length (filter isCreateClient (snd (initialiseClient w config hist context))) = 1"
proof -
  obtain options t1 where b: "buildClientOptions w config = (options, t1)" by fastforce
  obtain resolved t2 where r: "resolveLedgerOptions w config context = (resolved, t2)" by fastforce
  have t1: "list_all resolutionEvent t1"
    using buildClientOptions_resolutionEvent[of w config] b by simp
  have t2: "list_all resolutionEvent t2"
    using resolve_resolutionEvent[of w config "context"] r by simp
  note f = filter_resolution[OF t1] filter_resolution[OF t2]
  have a: "\<not> isCreateClient (Authenticate x y)" "\<not> isCreateClient (LogInfo m)"
    "\<not> isCreateClient (LogWarn m)" "isCreateClient (CreateClient o')" for x y m o'
    by (simp_all add: isCreateClient_def)
  show ?thesis
    by (simp add: initialiseClient_def b r f a Let_def split: sum.splits option.splits)
qed

lemma getClient_cached: "clientPromise s = Some p \<Longrightarrow> getClient w config context s = (p, s)"
  by (simp add: getClient_def)

lemma getClient_first:
  "clientPromise s = None \<Longrightarrow>
     getClient w config context s =
       (fst (initialiseClient w config (trace s) context),
        s\<lparr>clientPromise := Some (fst (initialiseClient w config (trace s) context)),
          trace := trace s @ snd (initialiseClient w config (trace s) context)\<rparr>)"
  by (simp add: getClient_def split_def)

lemma getClientCalls_cached:
  "clientPromise s = Some p \<Longrightarrow>
     getClientCalls w config contexts s = (replicate (length contexts) p, s)"
  by (induction contexts) (simp_all add: getClient_cached)

text \<open>
  Claim C8. On a provider that has no client yet, every call of a sequence of \<open>getClient\<close>
  calls settles as the construction started by the first call does; the events of the whole
  sequence are those of that one construction, in which the factory runs once; and after
  the first call \<open>getClient\<close> returns the same result and leaves the state unchanged
  whatever resolution context it is given.
\<close>

theorem getClient_once:
  assumes "clientPromise s = None"
  shows "getClientCalls w config (context # contexts) s =
           (replicate (Suc (length contexts)) (fst (initialiseClient w config (trace s) context)),
            snd (getClient w config context s))
         \<and> trace (snd (getClient w config context s)) =
             trace s @ snd (initialiseClient w config (trace s) context)
         \<and> length (filter isCreateClient (snd (initialiseClient w config (trace s) context))) = 1
         \<and> (\<forall>context'. getClient w config context' (snd (getClient w config context s)) =
               (fst (getClient w config context s), snd (getClient w config context s)))"
proof -
  let ?p = "fst (initialiseClient w config (trace s) context)"
  let ?s' = "snd (getClient w config context s)"
  have fg: "fst (getClient w config context s) = ?p" and cp: "clientPromise ?s' = Some ?p"
    and tr: "trace ?s' = trace s @ snd (initialiseClient w config (trace s) context)"
    using assms by (simp_all add: getClient_first)
  have "getClientCalls w config (context # contexts) s =
           (replicate (Suc (length contexts)) ?p, ?s')"
    using getClientCalls_cached[OF cp, of w config contexts] by (simp add: split_def fg)
  moreover have "\<forall>context'. getClient w config context' ?s' = (fst (getClient w config context s), ?s')"
    using getClient_cached[OF cp] by (simp add: fg)
  ultimately show ?thesis
    using tr initialiseClient_createClient_once by blast
qed

theorem getClient_once_witness:
  "fst (getClientCalls (quietWorld Map.empty) None [None, exampleContext, None] initialState) =
     [Inr exampleClient, Inr exampleClient,
      Inr exampleClient]
   \<and> length (filter isCreateClient
        (trace (snd (getClientCalls (quietWorld Map.empty) None [None, exampleContext, None]
                       initialState)))) = 1"
proof -
  have i: "clientPromise initialState = None" "trace initialState = []"
    by (simp_all add: initialState_def)
  have f: "fst (initialiseClient (quietWorld Map.empty) None [] None) = Inr exampleClient"
    by (simp add: initialiseClient_def provider_eval)
  show ?thesis
    using getClient_once[OF i(1), of "quietWorld Map.empty" None None "[exampleContext, None]"]
    by (simp add: i f numeral_3_eq_3)
qed

section \<open>Properties of the operation tool\<close>

lemma parse_toolInput:
  "parse registryBrokerInputSchema (toolInput operation payload) = Inr (toolInput operation payload)"
  by (simp add: parse_def registryBrokerInputSchema_def toolInput_def zobject_def zstring_def
      issuesOf_def keptFields_def split: jsval.splits)

lemma toolInput_fields:
  "stringOf (getProp (toolInput operation payload) ''operation'') = operation"
  "getProp (toolInput operation payload) ''payload'' = payload"
  by (simp_all add: toolInput_def stringOf_def)

lemma table_entries:
  "list_all (\<lambda>(k, d). \<not> isCustom d \<and> k \<notin> set conversationOperations \<and> k \<noteq> ''initializeAgent'')
     OPERATION_DEFINITIONS"
  by (simp add: OPERATION_DEFINITIONS_def isCustom_def conversationOperations_def)

lemma lookup_Own:
  assumes "map_of OPERATION_DEFINITIONS operation = Some d"
  shows "lookupDefinition operation = Own d" "\<not> isCustom d"
    "operation \<notin> set conversationOperations" "operation \<noteq> ''initializeAgent''"
proof -
  from assms have "(operation, d) \<in> set OPERATION_DEFINITIONS" by (rule map_of_SomeD)
  with table_entries show "\<not> isCustom d"
    "operation \<notin> set conversationOperations" "operation \<noteq> ''initializeAgent''"
    by (auto simp: list_all_iff)
  show "lookupDefinition operation = Own d" using assms by (simp add: lookupDefinition_def)
qed

lemma register_eq:
  "register w handle s =
     (JObj [(''handleId'', JStr (createHandleId w (trace s))),
            (''sessionId'', getProp handle ''sessionId''),
            (''mode'', getProp handle ''mode''),
            (''summary'', nullish (getProp handle ''summary'') JNull)],
      s\<lparr>handles := (handles s)(createHandleId w (trace s) \<mapsto> handle),
        trace := trace s @ [CreateHandleId (createHandleId w (trace s))]\<rparr>)"
  by (simp add: register_def Let_def)

lemma nullish_idem: "nullish (nullish v JNull) JNull = nullish v JNull"
  by (cases v) simp_all

lemma wrapResult_handle:
  "isConversationHandle result \<Longrightarrow>
     wrapResult w operation result s =
       (JObj [(''success'', JBool True), (''operation'', JStr operation),
              (''result'',
                 JObj [(''handleId'', JStr (createHandleId w (trace s))),
                       (''sessionId'', getProp result ''sessionId''),
                       (''mode'', getProp result ''mode''),
                       (''summary'', nullish (getProp result ''summary'') JNull)])],
        s\<lparr>handles := (handles s)(createHandleId w (trace s) \<mapsto> result),
          trace := trace s @ [CreateHandleId (createHandleId w (trace s))]\<rparr>)"
  by (simp add: wrapResult_def mapResult_def register_eq nullish_idem)

lemma wrapResult_plain:
  "\<not> isConversationHandle result \<Longrightarrow>
     wrapResult w operation result s =
       (JObj [(''success'', JBool True), (''operation'', JStr operation), (''result'', result)], s)"
  by (simp add: wrapResult_def mapResult_def)

lemma callTarget_fun:
  "callTarget w (JFun f) this args s =
     (callFunction w (trace s) f this args, s\<lparr>trace := trace s @ [Invoke (JFun f) this args]\<rparr>)"
  by (simp add: callTarget_def)

lemma executeBody_method:
  assumes d: "map_of OPERATION_DEFINITIONS operation = Some d"
      and g: "getClient w config (Some \<lparr>hederaClient = hc\<rparr>) s = (Inr c, s1)"
      and t: "resolveTarget c (definitionPath d) = JFun f"
  shows "executeBody w config hc operation payload s =
           invokeDefinition w d operation payload c (JFun f) s1"
  using lookup_Own[OF d] g t
  by (cases d) (simp_all add: executeBody_def isCustom_def Let_def)

lemma execute_snd:
  assumes "parse registryBrokerInputSchema rawInput = Inr parsedInput"
  shows "snd (execute w config hc rawInput s) =
           snd (executeBody w config hc (stringOf (getProp parsedInput ''operation''))
                  (getProp parsedInput ''payload'') s)"
  using assms
  by (simp add: execute_def Let_def split: prod.splits sum.splits js_error.splits)

lemma execute_result:
  assumes "parse registryBrokerInputSchema rawInput = Inr parsedInput"
      and "executeBody w config hc (stringOf (getProp parsedInput ''operation''))
             (getProp parsedInput ''payload'') s = (Inr r, s')"
  shows "execute w config hc rawInput s = (Inr r, s')"
  using assms by (simp add: execute_def Let_def)

lemma execute_error:
  assumes "parse registryBrokerInputSchema rawInput = Inr parsedInput"
      and "executeBody w config hc (stringOf (getProp parsedInput ''operation''))
             (getProp parsedInput ''payload'') s = (Inl e, s')"
      and "\<not> isParseError e"
  shows "execute w config hc rawInput s = (Inl e, s')"
  using assms by (simp add: execute_def Let_def isParseError_def split: js_error.splits)

lemma execute_parseError:
  assumes "parse registryBrokerInputSchema rawInput = Inr parsedInput"
      and "executeBody w config hc (stringOf (getProp parsedInput ''operation''))
             (getProp parsedInput ''payload'') s = (Inl (RegistryBrokerParseError message rawValue), s')"
  shows "execute w config hc rawInput s =
           (Inr (parseErrorResult (stringOf (getProp parsedInput ''operation'')) message rawValue), s')"
  using assms by (simp add: execute_def Let_def parseErrorResult_def)

lemma execute_toolInput:
  "execute w config hc (toolInput operation payload) s =
     (case executeBody w config hc operation payload s of
        (Inl (RegistryBrokerParseError message rawValue), s') \<Rightarrow>
          (Inr (parseErrorResult operation message rawValue), s')
      | (r, s') \<Rightarrow> (r, s'))"
  by (simp add: execute_def parse_toolInput toolInput_fields parseErrorResult_def
      split: prod.splits sum.splits js_error.splits)



lemma parse_error_zod: "parse schema v = Inl e \<Longrightarrow> \<exists>issues. e = ZodError issues"
  by (auto simp: parse_def split: sum.splits)

lemma stringArg_input:
  "(if optional \<and> payload = JUndefined then JObj [] else nullish payload (JObj [])) =
     nullish payload (JObj [])"
  by (cases payload) simp_all

lemma stringArgSchema_parsed:
  assumes "parse (stringArgSchema field optional) x = Inr parsed"
  shows "(\<not> optional \<longrightarrow> (\<exists>v. getProp parsed field = JStr v \<and> v \<noteq> []))
       \<and> (optional \<longrightarrow> getProp parsed field = JUndefined \<or> (\<exists>v. getProp parsed field = JStr v))"
  using assms
  by (auto simp: parse_def stringArgSchema_def zobject_def zstring_def nonEmptyString_def
      issuesOf_def keptFields_def Let_def image_iff
      split: sum.splits jsval.splits if_splits option.splits)

lemma invokeDefinition_call:
  "invokeDefinition w d operation payload c (JFun f) s =
     (case d of
        custom schema handler \<Rightarrow> (Inr JNull, s)
      | _ \<Rightarrow>
        (case (case d of
                 noArgs path \<Rightarrow> Inr []
               | stringArg path field optional \<Rightarrow>
                   map_sum id (\<lambda>parsed. [getProp parsed field])
                     (parse (stringArgSchema field optional) (nullish payload (JObj [])))
               | objectArg path schema \<Rightarrow>
                   map_sum id (\<lambda>parsed. [parsed]) (parse schema (nullish payload (JObj [])))
               | tupleArg path schema mapArgs \<Rightarrow>
                   map_sum id mapArgs (parse schema (nullish payload (JObj [])))
               | custom schema handler \<Rightarrow> Inr []) of
           Inl e \<Rightarrow> (Inl e, s)
         | Inr args \<Rightarrow>
             (case callFunction w (trace s) f c args of
                Inl e \<Rightarrow> (Inl e, s\<lparr>trace := trace s @ [Invoke (JFun f) c args]\<rparr>)
              | Inr result \<Rightarrow>
                  (case wrapResult w operation result
                          (s\<lparr>trace := trace s @ [Invoke (JFun f) c args]\<rparr>) of
                     (r, s'') \<Rightarrow> (Inr r, s'')))))"
  by (cases d)
     (simp_all add: invokeDefinition_def callTarget_fun stringArg_input
        split: sum.splits prod.splits)

lemma spec_arguments_error: "spec_arguments d payload = Inl e \<Longrightarrow> \<exists>issues. e = ZodError issues"
  by (cases d) (auto simp: spec_arguments_def split: sum.splits dest: parse_error_zod)

lemma invokeDefinition_spec:
  "\<not> isCustom d \<Longrightarrow>
   invokeDefinition w d operation payload c (JFun f) s =
     (case spec_arguments d payload of
        Inl e \<Rightarrow> (Inl e, s)
      | Inr args \<Rightarrow>
          (case callFunction w (trace s) f c args of
             Inl e \<Rightarrow> (Inl e, s\<lparr>trace := trace s @ [Invoke (JFun f) c args]\<rparr>)
           | Inr result \<Rightarrow>
               (case wrapResult w operation result
                       (s\<lparr>trace := trace s @ [Invoke (JFun f) c args]\<rparr>) of
                  (r, s'') \<Rightarrow> (Inr r, s''))))"
  by (cases d)
     (simp_all add: invokeDefinition_call spec_arguments_def isCustom_def split: sum.splits)

lemma wrapResult_trace:
  "\<exists>rest. trace (snd (wrapResult w operation result s)) = trace s @ rest \<and> invocations rest = []"
  by (cases "isConversationHandle result")
     (simp_all add: wrapResult_handle wrapResult_plain invocations_def isInvoke_def)

lemma resolutionEvent_not_invoke: "list_all resolutionEvent t \<Longrightarrow> invocations t = []"
proof -
  have "\<not> isInvoke e" if "resolutionEvent e" for e
    using that by (cases e) (simp_all add: resolutionEvent_def isInvoke_def)
  then show "list_all resolutionEvent t \<Longrightarrow> invocations t = []"
    by (auto simp: invocations_def filter_empty_conv list_all_iff)
qed

lemma initialiseClient_invocations:
  "invocations (snd (initialiseClient w config hist context)) = []"
proof -
  have a: "invocations (snd (buildClientOptions w config)) = []"
    "invocations (snd (resolveLedgerOptions w config context)) = []"
    by (simp_all add: resolutionEvent_not_invoke buildClientOptions_resolutionEvent
        resolve_resolutionEvent)
  have i: "invocations (x @ y) = invocations x @ invocations y"
    "invocations (e # x) = (if isInvoke e then e # invocations x else invocations x)"
    "invocations [] = []" for x y e
    by (simp_all add: invocations_def)
  have n: "\<not> isInvoke (CreateClient o')" "\<not> isInvoke (LogInfo m)" "\<not> isInvoke (LogWarn m)"
    "\<not> isInvoke (Authenticate x y)" for o' m x y
    by (simp_all add: isInvoke_def)
  show ?thesis
    using a
    by (simp add: initialiseClient_def split_def Let_def i n split: sum.splits option.splits)
qed

lemma getClient_invocations:
  "invocations (trace (snd (getClient w config context s))) = invocations (trace s)"
  using initialiseClient_invocations[of w config "trace s" "context"]
  by (simp add: getClient_def split_def invocations_def split: option.splits)

lemma initialiseClient_authenticate_once:
  "length (filter isAuthenticate (snd (initialiseClient w config hist context))) \<le> 1"
proof -
  obtain options t1 where b: "buildClientOptions w config = (options, t1)" by fastforce
  obtain resolved t2 where r: "resolveLedgerOptions w config context = (resolved, t2)" by fastforce
  have t1: "list_all resolutionEvent t1"
    using buildClientOptions_resolutionEvent[of w config] b by simp
  have t2: "list_all resolutionEvent t2"
    using resolve_resolutionEvent[of w config "context"] r by simp
  note f = filter_resolution[OF t1] filter_resolution[OF t2]
  have a: "isAuthenticate (Authenticate x y)" "\<not> isAuthenticate (LogInfo m)"
    "\<not> isAuthenticate (LogWarn m)" "\<not> isAuthenticate (CreateClient o')" for x y m o'
    by (simp_all add: isAuthenticate_def)
  show ?thesis
    by (simp add: initialiseClient_def b r f a Let_def split: sum.splits option.splits)
qed

lemma getClient_events:
  "\<exists>t. trace (snd (getClient w config context s)) = trace s @ t
       \<and> invocations t = []
       \<and> length (filter isAuthenticate t) \<le> 1
       \<and> (clientPromise s \<noteq> None \<longrightarrow> snd (getClient w config context s) = s)"
proof (cases "clientPromise s")
  case None
  then show ?thesis
    using initialiseClient_invocations[of w config "trace s" "context"]
      initialiseClient_authenticate_once[of w config "trace s" "context"]
    by (simp add: getClient_first)
next
  case (Some p)
  then show ?thesis by (simp add: getClient_cached invocations_def)
qed

lemma executeBody_rejected:
  assumes d: "map_of OPERATION_DEFINITIONS operation = Some d"
      and g: "getClient w config (Some \<lparr>hederaClient = hc\<rparr>) s = (Inl e, s1)"
  shows "executeBody w config hc operation payload s = (Inl e, s1)"
  using lookup_Own[OF d] g
  by (cases d) (simp_all add: executeBody_def isCustom_def Let_def)

lemma executeBody_unavailable:
  assumes d: "map_of OPERATION_DEFINITIONS operation = Some d"
      and g: "getClient w config (Some \<lparr>hederaClient = hc\<rparr>) s = (Inr c, s1)"
      and t: "\<forall>f. resolveTarget c (definitionPath d) \<noteq> JFun f"
  shows "executeBody w config hc operation payload s =
           (Inl (Error (''Method \"'' @ definitionPath d @ ''\" is unavailable on the client'')), s1)"
  using lookup_Own[OF d] g t
  by (cases d; cases "resolveTarget c (definitionPath d)")
     (simp_all add: executeBody_def isCustom_def Let_def)

lemmas zod_eval =
  parse_def zobject_def zstring_def nonEmptyString_def objectLike_def issuesOf_def valuesOf_def
  keptFields_def firstSuccess_def numberIssues_def stringArgSchema_def

lemma quiet_getClient:
  "fst (getClient (quietWorld Map.empty) None (Some \<lparr>hederaClient = None\<rparr>) initialState) =
     Inr exampleClient"
  by (simp add: getClient_def initialState_def split_def initialiseClient_def provider_eval)

text \<open>
  A payload that fails the schema does not always make \<open>execute\<close> throw a validation error,
  and a client method may have been called all the same. With \<open>{}\<close> for
  \<open>getRegistrationProgress\<close>, which requires \<open>attemptId\<close>: on a client without that
  method \<open>execute\<close> throws \<open>Method "getRegistrationProgress" is unavailable on the client\<close>,
  and when the factory throws, \<open>execute\<close> throws the error of the factory. With a string
  for \<open>authenticateWithLedgerCredentials\<close>, which requires an object: \<open>execute\<close> throws
  the validation error, after the provider has called \<open>authenticateWithLedgerCredentials\<close>
  on the new client with the credentials of the environment.
\<close>

theorem execute_invalid_payload_counterexample:
  "map_of OPERATION_DEFINITIONS ''getRegistrationProgress'' =
     Some (stringArg ''getRegistrationProgress'' ''attemptId'' False)
   \<and> spec_arguments (stringArg ''getRegistrationProgress'' ''attemptId'' False) (JObj []) =
       Inl (ZodError [ZodIssue [Key ''attemptId''] ''invalid_type'' (Some ''attemptId is required'')])
   \<and> fst (execute (quietWorld Map.empty) None None
             (toolInput ''getRegistrationProgress'' (JObj [])) initialState) =
       Inl (Error ''Method \"getRegistrationProgress\" is unavailable on the client'')
   \<and> fst (execute brokenFactoryWorld None None
             (toolInput ''getRegistrationProgress'' (JObj [])) initialState) =
       Inl (Error ''factory failed'')
   \<and> map_of OPERATION_DEFINITIONS ''authenticateWithLedgerCredentials'' =
       Some (objectArg ''authenticateWithLedgerCredentials'' ledgerAuthSchema)
   \<and> fst (execute ledgerWorld None None
             (toolInput ''authenticateWithLedgerCredentials'' (JStr ''0.0.456'')) initialState) =
       Inl (ZodError [ZodIssue [] ''custom'' (Some ''ledgerCredentialAuth must be an object'')])
   \<and> filter isAuthenticate
        (trace (snd (execute ledgerWorld None None
                       (toolInput ''authenticateWithLedgerCredentials'' (JStr ''0.0.456''))
                       initialState))) =
       [Authenticate ledgerClient
          \<lparr>accountId = ''0.0.456'', network = Some ''hedera:mainnet'',
           hederaPrivateKey = Some ''302e01'', label = None, sign = None, otherFields = []\<rparr>]"
proof -
  have d1: "map_of OPERATION_DEFINITIONS ''getRegistrationProgress'' =
     Some (stringArg ''getRegistrationProgress'' ''attemptId'' False)"
    and d2: "map_of OPERATION_DEFINITIONS ''authenticateWithLedgerCredentials'' =
       Some (objectArg ''authenticateWithLedgerCredentials'' ledgerAuthSchema)"
    by (simp_all add: OPERATION_DEFINITIONS_def)
  have a1: "spec_arguments (stringArg ''getRegistrationProgress'' ''attemptId'' False) (JObj []) =
       Inl (ZodError [ZodIssue [Key ''attemptId''] ''invalid_type'' (Some ''attemptId is required'')])"
    by (simp add: spec_arguments_def zod_eval)
  have g1: "fst (getClient (quietWorld Map.empty) None (Some \<lparr>hederaClient = None\<rparr>) initialState)
              = Inr exampleClient"
    by (rule quiet_getClient)
  have t1: "\<forall>f. resolveTarget exampleClient
                  (definitionPath (stringArg ''getRegistrationProgress'' ''attemptId'' False)) \<noteq> JFun f"
    by (simp add: resolveTarget_def definitionPath_def exampleClient_def)
  have e1: "fst (execute (quietWorld Map.empty) None None
             (toolInput ''getRegistrationProgress'' (JObj [])) initialState) =
       Inl (Error ''Method \"getRegistrationProgress\" is unavailable on the client'')"
    using executeBody_unavailable[OF d1 _ t1, of "quietWorld Map.empty" None None initialState
        "snd (getClient (quietWorld Map.empty) None (Some \<lparr>hederaClient = None\<rparr>) initialState)"
        "JObj []"] g1
    by (simp add: execute_toolInput prod_eq_iff definitionPath_def split_def)
  have g2: "fst (getClient brokenFactoryWorld None (Some \<lparr>hederaClient = None\<rparr>) initialState)
              = Inl (Error ''factory failed'')"
    by (simp add: getClient_def initialState_def split_def initialiseClient_def
        brokenFactoryWorld_def provider_eval)
  have e2: "fst (execute brokenFactoryWorld None None
             (toolInput ''getRegistrationProgress'' (JObj [])) initialState) =
       Inl (Error ''factory failed'')"
    using executeBody_rejected[OF d1, of brokenFactoryWorld None None initialState
        "Error ''factory failed''"
        "snd (getClient brokenFactoryWorld None (Some \<lparr>hederaClient = None\<rparr>) initialState)"
        "JObj []"] g2
    by (simp add: execute_toolInput prod_eq_iff split_def)
  have g3: "getClient ledgerWorld None (Some \<lparr>hederaClient = None\<rparr>) initialState =
      (Inr ledgerClient,
       \<lparr>clientPromise = Some (Inr ledgerClient), handles = Map.empty,
        trace = [EnvRead ''REGISTRY_BROKER_BASE_URL'', EnvRead ''REGISTRY_BROKER_API_KEY'',
                 EnvRead ''REGISTRY_BROKER_LEDGER_KEY'',
                 CreateClient \<lparr>baseUrl = None, apiKey = None, ledgerApiKey = None,
                               otherClientOptions = []\<rparr>,
                 EnvRead ''HEDERA_OPERATOR_ID'', EnvRead ''HEDERA_ACCOUNT_ID'',
                 EnvRead ''HEDERA_OPERATOR_KEY'', EnvRead ''HEDERA_PRIVATE_KEY'',
                 EnvRead ''MAINNET_HEDERA_ACCOUNT_ID'', EnvRead ''MAINNET_HEDERA_PRIVATE_KEY'',
                 EnvRead ''HEDERA_NETWORK'',
                 Authenticate ledgerClient
                   \<lparr>accountId = ''0.0.456'', network = Some ''hedera:mainnet'',
                    hederaPrivateKey = Some ''302e01'', label = None, sign = None,
                    otherFields = []\<rparr>,
                 LogInfo ''[RegistryBrokerPlugin] Authenticated with ledger account 0.0.456.'']\<rparr>)"
    by (simp add: getClient_def initialState_def initialiseClient_def ledgerWorld_def
        provider_eval)
  have t3: "resolveTarget ledgerClient
              (definitionPath (objectArg ''authenticateWithLedgerCredentials'' ledgerAuthSchema)) = JFun 6"
    by (simp add: resolveTarget_def definitionPath_def ledgerClient_def)
  have a3: "spec_arguments (objectArg ''authenticateWithLedgerCredentials'' ledgerAuthSchema)
              (JStr ''0.0.456'') =
            Inl (ZodError [ZodIssue [] ''custom'' (Some ''ledgerCredentialAuth must be an object'')])"
    by (simp add: spec_arguments_def ledgerAuthSchema_def zod_eval)
  have nc: "\<not> isCustom (objectArg ''authenticateWithLedgerCredentials'' ledgerAuthSchema)"
    by (simp add: isCustom_def)
  have e3: "execute ledgerWorld None None
             (toolInput ''authenticateWithLedgerCredentials'' (JStr ''0.0.456'')) initialState =
       (Inl (ZodError [ZodIssue [] ''custom'' (Some ''ledgerCredentialAuth must be an object'')]),
        snd (getClient ledgerWorld None (Some \<lparr>hederaClient = None\<rparr>) initialState))"
    using executeBody_method[OF d2 g3 t3, of "JStr ''0.0.456''"]
    by (simp add: execute_toolInput invokeDefinition_spec[OF nc] a3 g3)
  show ?thesis
    by (simp add: d1 d2 a1 e1 e2 e3 g3 isAuthenticate_def)
qed

text \<open>
  Claim C2, as the code has it. For an operation of the dispatch table \<open>execute\<close> first
  obtains the client and looks up the method at the definition's path, and only then
  validates the payload. When \<open>getClient\<close> rejects, \<open>execute\<close> fails with that error (a
  \<open>RegistryBrokerParseError\<close> becomes the result for parse errors); when the client has no
  function at the path, it throws \<open>Method "<path>" is unavailable on the client\<close>; both
  whatever the payload is. When the client is obtained and has the method: a payload that
  fails the definition's schema makes \<open>execute\<close> throw the validation error, and nothing
  happens after the client was obtained, so that the tool calls no method; a payload that
  passes makes the next event the call of the method on the client, the only call, with
  the arguments the kind of the definition gives (\<open>spec_arguments\<close>). Obtaining the client
  calls no method through the dispatch: its events are none when the client is cached, and
  otherwise those of the construction, in which the provider itself calls
  \<open>authenticateWithLedgerCredentials\<close> at most once. For a \<open>string\<close> definition that is not
  optional the argument is a non-empty string.
\<close>

theorem execute_validates_before_invoking:
  assumes i: "parse registryBrokerInputSchema rawInput = Inr parsedInput"
      and o: "operation = stringOf (getProp parsedInput ''operation'')"
      and p: "payload = getProp parsedInput ''payload''"
      and d: "map_of OPERATION_DEFINITIONS operation = Some d"
      and g: "getClient w config (Some \<lparr>hederaClient = hc\<rparr>) s = (r, s1)"
  shows "(case r of
            Inl e \<Rightarrow>
              (case e of
                 RegistryBrokerParseError message rawValue \<Rightarrow>
                   execute w config hc rawInput s =
                     (Inr (parseErrorResult operation message rawValue), s1)
               | _ \<Rightarrow> execute w config hc rawInput s = (Inl e, s1))
          | Inr c \<Rightarrow>
              (case resolveTarget c (definitionPath d) of
                 JFun f \<Rightarrow>
                   (case spec_arguments d payload of
                      Inl e \<Rightarrow>
                        (\<exists>issues. e = ZodError issues)
                        \<and> execute w config hc rawInput s = (Inl e, s1)
                    | Inr args \<Rightarrow>
                        (\<exists>rest. trace (snd (execute w config hc rawInput s)) =
                                   trace s1 @ Invoke (JFun f) c args # rest
                                \<and> invocations rest = []))
               | _ \<Rightarrow>
                   execute w config hc rawInput s =
                     (Inl (Error (''Method \"'' @ definitionPath d
                                  @ ''\" is unavailable on the client'')), s1)))
       \<and> (\<exists>t. trace s1 = trace s @ t
              \<and> invocations t = []
              \<and> length (filter isAuthenticate t) \<le> 1
              \<and> (clientPromise s \<noteq> None \<longrightarrow> s1 = s))
       \<and> (\<forall>path field parsed.
             d = stringArg path field False
             \<and> parse (stringArgSchema field False) (nullish payload (JObj [])) = Inr parsed \<longrightarrow>
             (\<exists>v. getProp parsed field = JStr v \<and> v \<noteq> []))"
proof (intro conjI allI impI)
  note nc = lookup_Own(2)[OF d]
  show "case r of
            Inl e \<Rightarrow>
              (case e of
                 RegistryBrokerParseError message rawValue \<Rightarrow>
                   execute w config hc rawInput s =
                     (Inr (parseErrorResult operation message rawValue), s1)
               | _ \<Rightarrow> execute w config hc rawInput s = (Inl e, s1))
          | Inr c \<Rightarrow>
              (case resolveTarget c (definitionPath d) of
                 JFun f \<Rightarrow>
                   (case spec_arguments d payload of
                      Inl e \<Rightarrow>
                        (\<exists>issues. e = ZodError issues)
                        \<and> execute w config hc rawInput s = (Inl e, s1)
                    | Inr args \<Rightarrow>
                        (\<exists>rest. trace (snd (execute w config hc rawInput s)) =
                                   trace s1 @ Invoke (JFun f) c args # rest
                                \<and> invocations rest = []))
               | _ \<Rightarrow>
                   execute w config hc rawInput s =
                     (Inl (Error (''Method \"'' @ definitionPath d
                                  @ ''\" is unavailable on the client'')), s1))"
  proof (cases r)
    case (Inl e)
    have b: "executeBody w config hc operation payload s = (Inl e, s1)"
      using executeBody_rejected[OF d] g Inl by simp
    show ?thesis
    proof (cases "isParseError e")
      case True
      then obtain message rawValue where e: "e = RegistryBrokerParseError message rawValue"
        by (cases e) (simp_all add: isParseError_def)
      with execute_parseError[OF i, of w config hc s message rawValue s1] b o p Inl
      show ?thesis by simp
    next
      case False
      with execute_error[OF i, of w config hc s e s1] b o p
      have "execute w config hc rawInput s = (Inl e, s1)" by simp
      with False Inl show ?thesis by (cases e) (simp_all add: isParseError_def)
    qed
  next
    case c: (Inr c)
    with g have g': "getClient w config (Some \<lparr>hederaClient = hc\<rparr>) s = (Inr c, s1)" by simp
    show ?thesis
    proof (cases "\<exists>f. resolveTarget c (definitionPath d) = JFun f")
      case False
      then have "executeBody w config hc operation payload s =
           (Inl (Error (''Method \"'' @ definitionPath d @ ''\" is unavailable on the client'')), s1)"
        using executeBody_unavailable[OF d g'] by simp
      then have "execute w config hc rawInput s =
           (Inl (Error (''Method \"'' @ definitionPath d @ ''\" is unavailable on the client'')), s1)"
        using execute_error[OF i, of w config hc s _ s1] o p by (simp add: isParseError_def)
      with False c show ?thesis
        by (cases "resolveTarget c (definitionPath d)") simp_all
    next
      case True
      then obtain f where t: "resolveTarget c (definitionPath d) = JFun f" by blast
      have b: "executeBody w config hc operation payload s =
                 invokeDefinition w d operation payload c (JFun f) s1"
        by (rule executeBody_method[OF d g' t])
      have "case spec_arguments d payload of
              Inl e \<Rightarrow>
                (\<exists>issues. e = ZodError issues) \<and> execute w config hc rawInput s = (Inl e, s1)
            | Inr args \<Rightarrow>
                (\<exists>rest. trace (snd (execute w config hc rawInput s)) =
                           trace s1 @ Invoke (JFun f) c args # rest
                        \<and> invocations rest = [])"
      proof (cases "spec_arguments d payload")
        case (Inl e)
        then obtain issues where z: "e = ZodError issues" using spec_arguments_error by blast
        have "executeBody w config hc operation payload s = (Inl e, s1)"
          by (simp add: b invokeDefinition_spec[OF nc] Inl)
        then have "execute w config hc rawInput s = (Inl e, s1)"
          using execute_error[OF i, of w config hc s e s1] o p z by (simp add: isParseError_def)
        with Inl z show ?thesis by simp
      next
        case (Inr args)
        let ?s2 = "s1\<lparr>trace := trace s1 @ [Invoke (JFun f) c args]\<rparr>"
        have sn: "snd (execute w config hc rawInput s) = snd (executeBody w config hc operation payload s)"
          using execute_snd[OF i] o p by simp
        show ?thesis
        proof (cases "callFunction w (trace s1) f c args")
          case (Inl e)
          then have "snd (executeBody w config hc operation payload s) = ?s2"
            by (simp add: b invokeDefinition_spec[OF nc] Inr)
          then show ?thesis using Inr sn by (simp add: invocations_def)
        next
          case r: (Inr result)
          then have "snd (executeBody w config hc operation payload s) =
                       snd (wrapResult w operation result ?s2)"
            by (simp add: b invokeDefinition_spec[OF nc] Inr split_def)
          moreover obtain rest where "trace (snd (wrapResult w operation result ?s2)) = trace ?s2 @ rest"
            "invocations rest = []"
            using wrapResult_trace by blast
          ultimately show ?thesis using Inr sn by simp
        qed
      qed
      with c t show ?thesis by simp
    qed
  qed
next
  show "\<exists>t. trace s1 = trace s @ t
              \<and> invocations t = []
              \<and> length (filter isAuthenticate t) \<le> 1
              \<and> (clientPromise s \<noteq> None \<longrightarrow> s1 = s)"
    using getClient_events[of w config "Some \<lparr>hederaClient = hc\<rparr>" s] g by simp
next
  fix path field parsed
  assume "d = stringArg path field False
             \<and> parse (stringArgSchema field False) (nullish payload (JObj [])) = Inr parsed"
  then show "\<exists>v. getProp parsed field = JStr v \<and> v \<noteq> []"
    using stringArgSchema_parsed[of field False] by blast
qed

text \<open>
  One operation of each kind on the example client, and a payload that fails.
\<close>

theorem execute_validates_before_invoking_witness:
  "(\<exists>rest. trace (snd (execute (quietWorld Map.empty) None None
                       (toolInput ''stats'' JUndefined) initialState)) =
             trace (snd (getClient (quietWorld Map.empty) None (Some \<lparr>hederaClient = None\<rparr>)
                           initialState))
               @ Invoke (JFun 2) exampleClient [] # rest
           \<and> invocations rest = [])
   \<and> (\<exists>rest. trace (snd (execute (quietWorld Map.empty) None None
                       (toolInput ''resolveUaid'' (JObj [(''uaid'', JStr ''uaid:test'')]))
                       initialState)) =
             trace (snd (getClient (quietWorld Map.empty) None (Some \<lparr>hederaClient = None\<rparr>)
                           initialState))
               @ Invoke (JFun 1) exampleClient [JStr ''uaid:test''] # rest
           \<and> invocations rest = [])
   \<and> execute (quietWorld Map.empty) None None
        (toolInput ''resolveUaid'' (JObj [(''uaid'', JStr [])])) initialState =
       (Inl (ZodError [ZodIssue [Key ''uaid''] ''too_small'' (Some ''uaid cannot be empty'')]),
        snd (getClient (quietWorld Map.empty) None (Some \<lparr>hederaClient = None\<rparr>) initialState))
   \<and> (\<exists>rest. trace (snd (execute (quietWorld Map.empty) None None
                       (toolInput ''search'' (JObj [(''q'', JStr ''cust support'')]))
                       initialState)) =
             trace (snd (getClient (quietWorld Map.empty) None (Some \<lparr>hederaClient = None\<rparr>)
                           initialState))
               @ Invoke (JFun 0) exampleClient [JObj [(''q'', JStr ''cust support'')]] # rest
           \<and> invocations rest = [])
   \<and> (\<exists>rest. trace (snd (execute (quietWorld Map.empty) None None
                       (toolInput ''registerAgent''
                          (JObj [(''payload'', JObj [(''registry'', JStr ''hashgraph-online'')])]))
                       initialState)) =
             trace (snd (getClient (quietWorld Map.empty) None (Some \<lparr>hederaClient = None\<rparr>)
                           initialState))
               @ Invoke (JFun 4) exampleClient
                   [JObj [(''registry'', JStr ''hashgraph-online'')], JUndefined] # rest
           \<and> invocations rest = [])"
proof -
  let ?w = "quietWorld Map.empty"
  let ?s1 = "snd (getClient ?w None (Some \<lparr>hederaClient = None\<rparr>) initialState)"
  have g: "getClient ?w None (Some \<lparr>hederaClient = None\<rparr>) initialState = (Inr exampleClient, ?s1)"
    using quiet_getClient by (simp add: prod_eq_iff)
  have d1: "map_of OPERATION_DEFINITIONS ''stats'' = Some (noArgs ''stats'')"
    and d2: "map_of OPERATION_DEFINITIONS ''resolveUaid'' = Some (stringArg ''resolveUaid'' ''uaid'' False)"
    and d3: "map_of OPERATION_DEFINITIONS ''search'' = Some (objectArg ''search'' registrySearchParamsSchema)"
    and d4: "map_of OPERATION_DEFINITIONS ''registerAgent'' =
               Some (tupleArg ''registerAgent'' registerAgentSchema
                      (\<lambda>payload. [getProp payload ''payload'', getProp payload ''options'']))"
    by (simp_all add: OPERATION_DEFINITIONS_def)
  have t1: "resolveTarget exampleClient (definitionPath (noArgs ''stats'')) = JFun 2"
    and t2: "resolveTarget exampleClient (definitionPath (stringArg ''resolveUaid'' ''uaid'' False)) = JFun 1"
    and t3: "resolveTarget exampleClient (definitionPath (objectArg ''search'' registrySearchParamsSchema)) = JFun 0"
    and t4: "resolveTarget exampleClient (definitionPath (tupleArg ''registerAgent'' registerAgentSchema
                      (\<lambda>payload. [getProp payload ''payload'', getProp payload ''options'']))) = JFun 4"
    by (simp_all add: resolveTarget_def definitionPath_def exampleClient_def)
  have a1: "spec_arguments (noArgs ''stats'') JUndefined = Inr []"
    by (simp add: spec_arguments_def)
  have a2: "spec_arguments (stringArg ''resolveUaid'' ''uaid'' False) (JObj [(''uaid'', JStr ''uaid:test'')])
              = Inr [JStr ''uaid:test'']"
    by (simp add: spec_arguments_def zod_eval)
  have a2': "spec_arguments (stringArg ''resolveUaid'' ''uaid'' False) (JObj [(''uaid'', JStr [])])
              = Inl (ZodError [ZodIssue [Key ''uaid''] ''too_small'' (Some ''uaid cannot be empty'')])"
    by (simp add: spec_arguments_def zod_eval)
  have a3: "spec_arguments (objectArg ''search'' registrySearchParamsSchema)
              (JObj [(''q'', JStr ''cust support'')]) = Inr [JObj [(''q'', JStr ''cust support'')]]"
    by (simp add: spec_arguments_def registrySearchParamsSchema_def zod_eval)
  have a4: "spec_arguments (tupleArg ''registerAgent'' registerAgentSchema
                      (\<lambda>payload. [getProp payload ''payload'', getProp payload ''options'']))
              (JObj [(''payload'', JObj [(''registry'', JStr ''hashgraph-online'')])]) =
            Inr [JObj [(''registry'', JStr ''hashgraph-online'')], JUndefined]"
    by (simp add: spec_arguments_def registerAgentSchema_def zod_eval)
  note th = execute_validates_before_invoking[OF parse_toolInput _ _ _ g, unfolded toolInput_fields]
  show ?thesis
    using th[OF refl refl d1, of JUndefined] th[OF refl refl d2, of "JObj [(''uaid'', JStr ''uaid:test'')]"]
      th[OF refl refl d2, of "JObj [(''uaid'', JStr [])]"]
      th[OF refl refl d3, of "JObj [(''q'', JStr ''cust support'')]"]
      th[OF refl refl d4, of "JObj [(''payload'', JObj [(''registry'', JStr ''hashgraph-online'')])]"]
    by (simp add: a1 a2 a2' a3 a4 t1 t2 t3 t4)
qed

text \<open>
  An operation name that is no conversation operation, not \<open>initializeAgent\<close>, no key of
  the table and no member of \<open>Object.prototype\<close> is rejected before anything else happens.
\<close>

lemma execute_unsupported:
  assumes "operation \<notin> set conversationOperations" "operation \<noteq> ''initializeAgent''"
    "map_of OPERATION_DEFINITIONS operation = None" "operation \<notin> set objectPrototypeKeys"
  shows "execute w config hc (toolInput operation payload) s =
           (Inl (Error (''Unsupported registry broker operation: '' @ operation)), s)"
  using assms
  by (simp add: execute_def parse_toolInput toolInput_fields executeBody_def lookupDefinition_def)

text \<open>
  Claim C4. An operation name that is none of the conversation operations, not
  \<open>initializeAgent\<close> and no key of the table should make \<open>execute\<close> throw
  \<open>Unsupported registry broker operation: <operation>\<close> without obtaining a client. The
  code looks the name up by property access, which also finds what the table inherits from
  \<open>Object.prototype\<close>: for the operation \<open>constructor\<close>, \<open>execute\<close> obtains the client
  (the factory runs) and then throws a \<open>TypeError\<close>, because what it found has no \<open>path\<close>.
\<close>

theorem execute_inherited_operation:
  "''constructor'' \<notin> set conversationOperations
   \<and> ''constructor'' \<noteq> ''initializeAgent''
   \<and> map_of OPERATION_DEFINITIONS ''constructor'' = None
   \<and> fst (execute (quietWorld Map.empty) None None (JObj [(''operation'', JStr ''constructor'')])
             initialState) =
       Inl (TypeError ''Cannot read properties of undefined (reading 'split')'')
   \<and> clientPromise (snd (execute (quietWorld Map.empty) None None
                            (JObj [(''operation'', JStr ''constructor'')]) initialState)) =
       Some (Inr exampleClient)
   \<and> CreateClient \<lparr>baseUrl = None, apiKey = None, ledgerApiKey = None, otherClientOptions = []\<rparr>
       \<in> set (trace (snd (execute (quietWorld Map.empty) None None
                             (JObj [(''operation'', JStr ''constructor'')]) initialState)))"
proof -
  have m: "map_of OPERATION_DEFINITIONS ''constructor'' = None"
    by (simp add: OPERATION_DEFINITIONS_def)
  have l: "lookupDefinition ''constructor'' = Inherited"
    by (simp add: lookupDefinition_def m objectPrototypeKeys_def)
  have p: "parse registryBrokerInputSchema (JObj [(''operation'', JStr ''constructor'')]) =
             Inr (JObj [(''operation'', JStr ''constructor'')])"
    by (simp add: registryBrokerInputSchema_def zod_eval)
  have g: "getClient (quietWorld Map.empty) None (Some \<lparr>hederaClient = None\<rparr>) initialState =
             (Inr exampleClient,
              \<lparr>clientPromise = Some (Inr exampleClient), handles = Map.empty,
               trace = [EnvRead ''REGISTRY_BROKER_BASE_URL'', EnvRead ''REGISTRY_BROKER_API_KEY'',
                        EnvRead ''REGISTRY_BROKER_LEDGER_KEY'',
                        CreateClient \<lparr>baseUrl = None, apiKey = None, ledgerApiKey = None,
                                      otherClientOptions = []\<rparr>,
                        EnvRead ''HEDERA_OPERATOR_ID'', EnvRead ''HEDERA_ACCOUNT_ID'',
                        EnvRead ''HEDERA_OPERATOR_KEY'', EnvRead ''HEDERA_PRIVATE_KEY'',
                        EnvRead ''MAINNET_HEDERA_ACCOUNT_ID'',
                        EnvRead ''MAINNET_HEDERA_PRIVATE_KEY'',
                        LogWarn ''[RegistryBrokerPlugin] Neither REGISTRY_BROKER_API_KEY nor ledger credentials were provided. Paid endpoints will fail.'']\<rparr>)"
    by (simp add: getClient_def initialState_def initialiseClient_def provider_eval)
  have e: "execute (quietWorld Map.empty) None None (JObj [(''operation'', JStr ''constructor'')])
             initialState =
           (Inl (TypeError ''Cannot read properties of undefined (reading 'split')''),
            snd (getClient (quietWorld Map.empty) None (Some \<lparr>hederaClient = None\<rparr>) initialState))"
    by (simp add: execute_def p stringOf_def executeBody_def conversationOperations_def l g)
  show ?thesis
    by (simp add: e g m conversationOperations_def)
qed

lemma executeBody_initializeAgent_parseError:
  assumes "parse initializeAgentSchema (nullish payload (JObj [])) = Inr parsed"
      and "initializeAgent w (trace s) parsed = Inl e"
  shows "executeBody w config hc ''initializeAgent'' payload s =
           (Inl e, s\<lparr>trace := trace s @ [InitializeAgent parsed]\<rparr>)"
  using assms
  by (simp add: executeBody_def conversationOperations_def handleInitializeAgent_def Let_def)

lemma executeBody_method_throws:
  assumes d: "map_of OPERATION_DEFINITIONS operation = Some d"
      and g: "getClient w config (Some \<lparr>hederaClient = hc\<rparr>) s = (Inr c, s1)"
      and t: "resolveTarget c (definitionPath d) = JFun f"
      and a: "spec_arguments d payload = Inr args"
      and c: "callFunction w (trace s1) f c args = Inl e"
  shows "executeBody w config hc operation payload s =
           (Inl e, s1\<lparr>trace := trace s1 @ [Invoke (JFun f) c args]\<rparr>)"
  by (simp add: executeBody_method[OF d g t] invokeDefinition_spec[OF lookup_Own(2)[OF d]] a c)

lemma executeBody_method_returns:
  assumes d: "map_of OPERATION_DEFINITIONS operation = Some d"
      and g: "getClient w config (Some \<lparr>hederaClient = hc\<rparr>) s = (Inr c, s1)"
      and t: "resolveTarget c (definitionPath d) = JFun f"
      and a: "spec_arguments d payload = Inr args"
      and c: "callFunction w (trace s1) f c args = Inr result"
  shows "executeBody w config hc operation payload s =
           (Inr (fst (wrapResult w operation result (s1\<lparr>trace := trace s1 @ [Invoke (JFun f) c args]\<rparr>))),
            snd (wrapResult w operation result (s1\<lparr>trace := trace s1 @ [Invoke (JFun f) c args]\<rparr>)))"
  by (simp add: executeBody_method[OF d g t] invokeDefinition_spec[OF lookup_Own(2)[OF d]] a c
      split_def)

text \<open>
  Claim C9. When the body of \<open>execute\<close> throws a \<open>RegistryBrokerParseError\<close>, \<open>execute\<close>
  resolves to \<open>{success: true, operation, result: {parsed: false, error, raw}}\<close>, where
  \<open>raw\<close> is the error's \<open>rawValue\<close>, or \<open>null\<close> when that is absent; every other error of
  the body is thrown unchanged. So it is when a client method of the table, or
  \<open>initializeAgent\<close>, throws a \<open>RegistryBrokerParseError\<close>.
\<close>

theorem execute_catches_parse_error:
  assumes i: "parse registryBrokerInputSchema rawInput = Inr parsedInput"
      and o: "operation = stringOf (getProp parsedInput ''operation'')"
      and p: "payload = getProp parsedInput ''payload''"
  shows "(\<forall>message rawValue s'.
            executeBody w config hc operation payload s =
              (Inl (RegistryBrokerParseError message rawValue), s') \<longrightarrow>
            execute w config hc rawInput s =
              (Inr (JObj [(''success'', JBool True), (''operation'', JStr operation),
                          (''result'',
                             JObj [(''parsed'', JBool False), (''error'', JStr message),
                                   (''raw'', if rawValue = JUndefined \<or> rawValue = JNull
                                             then JNull else rawValue)])]), s'))
       \<and> (\<forall>e s'. executeBody w config hc operation payload s = (Inl e, s') \<and> \<not> isParseError e \<longrightarrow>
            execute w config hc rawInput s = (Inl e, s'))
       \<and> (\<forall>d c s1 f args message rawValue.
            map_of OPERATION_DEFINITIONS operation = Some d
            \<and> getClient w config (Some \<lparr>hederaClient = hc\<rparr>) s = (Inr c, s1)
            \<and> resolveTarget c (definitionPath d) = JFun f
            \<and> spec_arguments d payload = Inr args
            \<and> callFunction w (trace s1) f c args = Inl (RegistryBrokerParseError message rawValue) \<longrightarrow>
            fst (execute w config hc rawInput s) =
              Inr (parseErrorResult operation message rawValue))
       \<and> (\<forall>parsed message rawValue.
            operation = ''initializeAgent''
            \<and> parse initializeAgentSchema (nullish payload (JObj [])) = Inr parsed
            \<and> initializeAgent w (trace s) parsed = Inl (RegistryBrokerParseError message rawValue) \<longrightarrow>
            fst (execute w config hc rawInput s) =
              Inr (parseErrorResult operation message rawValue))"
proof (intro conjI allI impI)
  fix message rawValue s'
  assume "executeBody w config hc operation payload s =
              (Inl (RegistryBrokerParseError message rawValue), s')"
  then have "execute w config hc rawInput s =
               (Inr (parseErrorResult operation message rawValue), s')"
    using execute_parseError[OF i] o p by simp
  moreover have "nullish rawValue JNull = (if rawValue = JUndefined \<or> rawValue = JNull
                                             then JNull else rawValue)"
    by (cases rawValue) simp_all
  ultimately show "execute w config hc rawInput s =
              (Inr (JObj [(''success'', JBool True), (''operation'', JStr operation),
                          (''result'',
                             JObj [(''parsed'', JBool False), (''error'', JStr message),
                                   (''raw'', if rawValue = JUndefined \<or> rawValue = JNull
                                             then JNull else rawValue)])]), s')"
    by (simp add: parseErrorResult_def)
next
  fix e s'
  assume "executeBody w config hc operation payload s = (Inl e, s') \<and> \<not> isParseError e"
  then show "execute w config hc rawInput s = (Inl e, s')"
    using execute_error[OF i] o p by simp
next
  fix d c s1 f args message rawValue
  assume "map_of OPERATION_DEFINITIONS operation = Some d
            \<and> getClient w config (Some \<lparr>hederaClient = hc\<rparr>) s = (Inr c, s1)
            \<and> resolveTarget c (definitionPath d) = JFun f
            \<and> spec_arguments d payload = Inr args
            \<and> callFunction w (trace s1) f c args = Inl (RegistryBrokerParseError message rawValue)"
  then have "executeBody w config hc operation payload s =
           (Inl (RegistryBrokerParseError message rawValue),
            s1\<lparr>trace := trace s1 @ [Invoke (JFun f) c args]\<rparr>)"
    using executeBody_method_throws by blast
  then show "fst (execute w config hc rawInput s) =
              Inr (parseErrorResult operation message rawValue)"
    using execute_parseError[OF i] o p by simp
next
  fix parsed message rawValue
  assume a: "operation = ''initializeAgent''
            \<and> parse initializeAgentSchema (nullish payload (JObj [])) = Inr parsed
            \<and> initializeAgent w (trace s) parsed = Inl (RegistryBrokerParseError message rawValue)"
  then have "executeBody w config hc operation payload s =
           (Inl (RegistryBrokerParseError message rawValue),
            s\<lparr>trace := trace s @ [InitializeAgent parsed]\<rparr>)"
    using executeBody_initializeAgent_parseError by blast
  then show "fst (execute w config hc rawInput s) =
              Inr (parseErrorResult operation message rawValue)"
    using execute_parseError[OF i] o p by simp
qed

lemma failing_getClient:
  "fst (getClient (failingWorld e) None (Some \<lparr>hederaClient = None\<rparr>) initialState) =
     Inr exampleClient"
  by (simp add: getClient_def initialState_def split_def initialiseClient_def provider_eval
      failingWorld_def)

text \<open>
  The \<open>search\<close> method throwing a \<open>RegistryBrokerParseError\<close>, and throwing another error.
\<close>

theorem execute_catches_parse_error_witness:
  "fst (execute (failingWorld (RegistryBrokerParseError ''Failed to parse search response'' JUndefined))
          None None (toolInput ''search'' (JObj [(''q'', JStr ''cust support'')])) initialState) =
     Inr (JObj [(''success'', JBool True), (''operation'', JStr ''search''),
                (''result'',
                   JObj [(''parsed'', JBool False),
                         (''error'', JStr ''Failed to parse search response''),
                         (''raw'', JNull)])])
   \<and> fst (execute (failingWorld (Error ''boom'')) None None
            (toolInput ''search'' (JObj [(''q'', JStr ''cust support'')])) initialState) =
       Inl (Error ''boom'')"
proof -
  let ?pe = "RegistryBrokerParseError ''Failed to parse search response'' JUndefined"
  let ?p = "JObj [(''q'', JStr ''cust support'')]"
  let ?g = "\<lambda>e. getClient (failingWorld e) None (Some \<lparr>hederaClient = None\<rparr>) initialState"
  have g: "?g e = (Inr exampleClient, snd (?g e))" for e
    using failing_getClient[of e] by (simp add: prod_eq_iff)
  have d: "map_of OPERATION_DEFINITIONS ''search'' = Some (objectArg ''search'' registrySearchParamsSchema)"
    by (simp add: OPERATION_DEFINITIONS_def)
  have t: "resolveTarget exampleClient (definitionPath (objectArg ''search'' registrySearchParamsSchema)) = JFun 0"
    by (simp add: resolveTarget_def definitionPath_def exampleClient_def)
  have a: "spec_arguments (objectArg ''search'' registrySearchParamsSchema) ?p = Inr [?p]"
    by (simp add: spec_arguments_def registrySearchParamsSchema_def zod_eval)
  have c: "callFunction (failingWorld e) h f this args = Inl e" for e h f this args
    by (simp add: failingWorld_def quietWorld_def)
  note th = execute_catches_parse_error[OF parse_toolInput refl refl, unfolded toolInput_fields]
  have "fst (execute (failingWorld ?pe) None None (toolInput ''search'' ?p) initialState) =
          Inr (parseErrorResult ''search'' ''Failed to parse search response'' JUndefined)"
    using th[of "failingWorld ?pe" None None "''search''" ?p initialState] d g[of ?pe] t a c
    by blast
  moreover have "execute (failingWorld (Error ''boom'')) None None (toolInput ''search'' ?p) initialState
                   = (Inl (Error ''boom''),
                      (snd (?g (Error ''boom'')))\<lparr>trace := trace (snd (?g (Error ''boom'')))
                          @ [Invoke (JFun 0) exampleClient [?p]]\<rparr>)"
    using th[of "failingWorld (Error ''boom'')" None None "''search''" ?p initialState]
      executeBody_method_throws[OF d g[of "Error ''boom''"] t a c]
    by (simp add: isParseError_def)
  ultimately show ?thesis by (simp add: parseErrorResult_def)
qed

lemma executeBody_send:
  assumes "parse conversationSendSchema (nullish payload (JObj [])) = Inr parsed"
  shows "executeBody w config hc ''conversation.send'' payload s =
           (case get (stringOf (getProp parsed ''handleId'')) s of
              Inl e \<Rightarrow> (Inl e, s)
            | Inr handle \<Rightarrow>
                (case callTarget w (getProp handle ''send'') handle [getProp parsed ''payload''] s of
                   (Inl e, s') \<Rightarrow> (Inl e, s')
                 | (Inr result, s') \<Rightarrow>
                     (case wrapResult w ''conversation.send'' result s' of
                        (r, s'') \<Rightarrow> (Inr r, s''))))"
  using assms
  by (simp add: executeBody_def conversationOperations_def handleConversationOperation_def
      split: sum.splits prod.splits)

lemma executeBody_decrypt:
  assumes "parse conversationDecryptSchema (nullish payload (JObj [])) = Inr parsed"
  shows "executeBody w config hc ''conversation.decryptHistoryEntry'' payload s =
           (case get (stringOf (getProp parsed ''handleId'')) s of
              Inl e \<Rightarrow> (Inl e, s)
            | Inr handle \<Rightarrow>
                (case callTarget w (getProp handle ''decryptHistoryEntry'') handle
                        [getProp parsed ''entry''] s of
                   (Inl e, s') \<Rightarrow> (Inl e, s')
                 | (Inr result, s') \<Rightarrow>
                     (case wrapResult w ''conversation.decryptHistoryEntry'' result s' of
                        (r, s'') \<Rightarrow> (Inr r, s''))))"
  using assms
  by (simp add: executeBody_def conversationOperations_def handleConversationOperation_def
      split: sum.splits prod.splits)

lemma executeBody_release:
  assumes "parse conversationReleaseSchema (nullish payload (JObj [])) = Inr parsed"
  shows "executeBody w config hc ''conversation.release'' payload s =
           (Inr (JObj [(''success'', JBool True), (''operation'', JStr ''conversation.release''),
                       (''result'', JBool (handles s (stringOf (getProp parsed ''handleId'')) \<noteq> None))]),
            s\<lparr>handles := (handles s)(stringOf (getProp parsed ''handleId'') := None)\<rparr>)"
  using assms
  by (simp add: executeBody_def conversationOperations_def handleConversationOperation_def
      release_def wrapResult_plain isConversationHandle_def)




lemma execute_method_returns:
  assumes i: "parse registryBrokerInputSchema rawInput = Inr parsedInput"
      and d: "map_of OPERATION_DEFINITIONS (stringOf (getProp parsedInput ''operation'')) = Some d"
      and g: "getClient w config (Some \<lparr>hederaClient = hc\<rparr>) s = (Inr c, s1)"
      and t: "resolveTarget c (definitionPath d) = JFun f"
      and a: "spec_arguments d (getProp parsedInput ''payload'') = Inr args"
      and c: "callFunction w (trace s1) f c args = Inr result"
  shows "execute w config hc rawInput s =
           (Inr (fst (wrapResult w (stringOf (getProp parsedInput ''operation'')) result
                        (s1\<lparr>trace := trace s1 @ [Invoke (JFun f) c args]\<rparr>))),
            snd (wrapResult w (stringOf (getProp parsedInput ''operation'')) result
                   (s1\<lparr>trace := trace s1 @ [Invoke (JFun f) c args]\<rparr>)))"
  using execute_result[OF i executeBody_method_returns[OF d g t a c]] .














lemma quiet_getClient_pair:
  "getClient (quietWorld Map.empty) None (Some \<lparr>hederaClient = None\<rparr>) initialState =
     (Inr exampleClient,
      snd (getClient (quietWorld Map.empty) None (Some \<lparr>hederaClient = None\<rparr>) initialState))"
  using quiet_getClient by (simp add: prod_eq_iff)

lemma example_isConversationHandle: "isConversationHandle exampleHandle"
  by (simp add: isConversationHandle_def exampleHandle_def)

lemma quiet_createHandleId: "createHandleId (quietWorld vars) hist = exampleHandleId"
  by (simp add: createHandleId_def quietWorld_def exampleHandleId_def)

lemma chatStart_result:
  "execute (quietWorld Map.empty) None None chatStartInput initialState =
     (Inr (JObj [(''success'', JBool True), (''operation'', JStr ''chat.start''),
                 (''result'',
                    JObj [(''handleId'', JStr exampleHandleId),
                          (''sessionId'', JStr ''session-1''),
                          (''mode'', JStr ''plaintext''),
                          (''summary'', JNull)])]),
      afterChatStart)
   \<and> handles afterChatStart exampleHandleId = Some exampleHandle"
proof -
  let ?w = "quietWorld Map.empty"
  let ?p = "JObj [(''uaid'', JStr ''uaid:demo'')]"
  have d: "map_of OPERATION_DEFINITIONS (stringOf (getProp (toolInput ''chat.start'' ?p) ''operation''))
             = Some (objectArg ''chat.start'' startChatSchema)"
    by (simp add: toolInput_fields OPERATION_DEFINITIONS_def)
  have t: "resolveTarget exampleClient (definitionPath (objectArg ''chat.start'' startChatSchema)) = JFun 3"
    by (simp add: resolveTarget_def definitionPath_def exampleClient_def)
  have a: "spec_arguments (objectArg ''chat.start'' startChatSchema)
             (getProp (toolInput ''chat.start'' ?p) ''payload'') = Inr [?p]"
    by (simp add: toolInput_fields spec_arguments_def startChatSchema_def zod_eval)
  have c: "callFunction ?w hist 3 this args = Inr exampleHandle" for hist this args
    by (simp add: quietWorld_def)
  have e: "execute ?w None None (toolInput ''chat.start'' ?p) initialState =
           (Inr (fst (wrapResult ?w ''chat.start'' exampleHandle
                  ((snd (getClient ?w None (Some \<lparr>hederaClient = None\<rparr>) initialState))
                     \<lparr>trace := trace (snd (getClient ?w None (Some \<lparr>hederaClient = None\<rparr>) initialState))
                          @ [Invoke (JFun 3) exampleClient [?p]]\<rparr>))),
            snd (wrapResult ?w ''chat.start'' exampleHandle
                  ((snd (getClient ?w None (Some \<lparr>hederaClient = None\<rparr>) initialState))
                     \<lparr>trace := trace (snd (getClient ?w None (Some \<lparr>hederaClient = None\<rparr>) initialState))
                          @ [Invoke (JFun 3) exampleClient [?p]]\<rparr>)))"
    using execute_method_returns[OF parse_toolInput d quiet_getClient_pair t a c]
    by (simp add: toolInput_fields)
  show ?thesis
    unfolding afterChatStart_def chatStartInput_def e
    by (simp add: wrapResult_handle[OF example_isConversationHandle] quiet_createHandleId)
       (simp add: exampleHandle_def)
qed


lemma execute_release:
  assumes "parse conversationReleaseSchema (nullish payload (JObj [])) = Inr parsed"
  shows "execute w config hc (toolInput ''conversation.release'' payload) s =
           (Inr (JObj [(''success'', JBool True), (''operation'', JStr ''conversation.release''),
                       (''result'', JBool (handles s (stringOf (getProp parsed ''handleId'')) \<noteq> None))]),
            s\<lparr>handles := (handles s)(stringOf (getProp parsed ''handleId'') := None)\<rparr>)"
  by (simp add: execute_toolInput executeBody_release[OF assms])

lemma execute_send_missing:
  assumes "parse conversationSendSchema (nullish payload (JObj [])) = Inr parsed"
      and "handles s (stringOf (getProp parsed ''handleId'')) = None"
  shows "execute w config hc (toolInput ''conversation.send'' payload) s =
           (Inl (Error (''Conversation handle not found: '' @ stringOf (getProp parsed ''handleId''))), s)"
  by (simp add: execute_toolInput executeBody_send[OF assms(1)] get_def assms(2))

lemma execute_decrypt_missing:
  assumes "parse conversationDecryptSchema (nullish payload (JObj [])) = Inr parsed"
      and "handles s (stringOf (getProp parsed ''handleId'')) = None"
  shows "execute w config hc (toolInput ''conversation.decryptHistoryEntry'' payload) s =
           (Inl (Error (''Conversation handle not found: '' @ stringOf (getProp parsed ''handleId''))), s)"
  by (simp add: execute_toolInput executeBody_decrypt[OF assms(1)] get_def assms(2))

lemma release_example:
  "execute (quietWorld Map.empty) None None releaseInput afterChatStart =
     (Inr (JObj [(''success'', JBool True), (''operation'', JStr ''conversation.release''),
                 (''result'', JBool True)]), afterRelease)
   \<and> handles afterRelease exampleHandleId = None"
proof -
  let ?p = "JObj [(''handleId'', JStr exampleHandleId)]"
  have p: "parse conversationReleaseSchema (nullish ?p (JObj [])) = Inr ?p"
    by (simp add: conversationReleaseSchema_def zod_eval exampleHandleId_def)
  have f: "stringOf (getProp ?p ''handleId'') = exampleHandleId" by (simp add: stringOf_def)
  show ?thesis
    unfolding afterRelease_def releaseInput_def execute_release[OF p] f
    using chatStart_result by simp
qed

lemma execute_send_invalid:
  assumes "parse conversationSendSchema (nullish payload (JObj [])) = Inl e"
  shows "execute w config hc (toolInput ''conversation.send'' payload) s = (Inl e, s)"
  using assms parse_error_zod[OF assms]
  by (auto simp: execute_toolInput executeBody_def conversationOperations_def
      handleConversationOperation_def)

lemma execute_decrypt_invalid:
  assumes "parse conversationDecryptSchema (nullish payload (JObj [])) = Inl e"
  shows "execute w config hc (toolInput ''conversation.decryptHistoryEntry'' payload) s = (Inl e, s)"
  using assms parse_error_zod[OF assms]
  by (auto simp: execute_toolInput executeBody_def conversationOperations_def
      handleConversationOperation_def)

lemma execute_release_invalid:
  assumes "parse conversationReleaseSchema (nullish payload (JObj [])) = Inl e"
  shows "execute w config hc (toolInput ''conversation.release'' payload) s = (Inl e, s)"
  using assms parse_error_zod[OF assms]
  by (auto simp: execute_toolInput executeBody_def conversationOperations_def
      handleConversationOperation_def)

text \<open>
  After the handle of the example run is released, \<open>conversation.send\<close> with its id and no
  \<open>payload\<close> throws the validation error of the schema, not
  \<open>Conversation handle not found\<close>: the payload is validated before the handle is looked up.
\<close>

theorem conversation_send_after_release_counterexample:
  "fst (execute (quietWorld Map.empty) None None releaseInput afterChatStart) =
     Inr (JObj [(''success'', JBool True), (''operation'', JStr ''conversation.release''),
                (''result'', JBool True)])
   \<and> fst (execute (quietWorld Map.empty) None None
            (toolInput ''conversation.send'' (JObj [(''handleId'', JStr exampleHandleId)]))
            afterRelease) =
       Inl (ZodError [ZodIssue [Key ''payload''] ''custom'' (Some ''payload must be an object'')])
   \<and> fst (execute (quietWorld Map.empty) None None
            (toolInput ''conversation.send'' (JObj [(''handleId'', JStr exampleHandleId)]))
            afterRelease) \<noteq>
       Inl (Error (''Conversation handle not found: '' @ exampleHandleId))"
proof -
  let ?p = "JObj [(''handleId'', JStr exampleHandleId)]"
  have p: "parse conversationSendSchema (nullish ?p (JObj [])) =
             Inl (ZodError [ZodIssue [Key ''payload''] ''custom'' (Some ''payload must be an object'')])"
    by (simp add: conversationSendSchema_def zod_eval exampleHandleId_def)
  have "execute (quietWorld Map.empty) None None (toolInput ''conversation.send'' ?p) afterRelease =
          (Inl (ZodError [ZodIssue [Key ''payload''] ''custom'' (Some ''payload must be an object'')]),
           afterRelease)"
    by (simp add: execute_toolInput executeBody_def conversationOperations_def
        handleConversationOperation_def p[simplified])
  then show ?thesis using release_example by simp
qed

text \<open>
  Claim C10, with the validation that comes first. For a payload that passes the schema,
  \<open>conversation.release\<close> returns \<open>true\<close> exactly when the id is registered, and leaves
  it unregistered; in every state in which the id is not registered, a
  \<open>conversation.send\<close> or \<open>conversation.decryptHistoryEntry\<close> call that passes its schema
  and names the id throws \<open>Conversation handle not found: <handleId>\<close> and changes nothing.
  A \<open>conversation.send\<close>, \<open>conversation.decryptHistoryEntry\<close> or \<open>conversation.release\<close>
  call whose payload fails the schema throws the validation error of the schema and changes
  nothing, the store included, whether the id is registered or not.
\<close>

theorem conversation_release_then_not_found:
  assumes p: "parse conversationReleaseSchema (nullish payload (JObj [])) = Inr parsed"
      and h: "handleId = stringOf (getProp parsed ''handleId'')"
  shows "execute w config hc (toolInput ''conversation.release'' payload) s =
           (Inr (JObj [(''success'', JBool True), (''operation'', JStr ''conversation.release''),
                       (''result'', JBool (handleId \<in> dom (handles s)))]),
            s\<lparr>handles := (handles s)(handleId := None)\<rparr>)
       \<and> handles (snd (execute w config hc (toolInput ''conversation.release'' payload) s)) handleId
           = None
       \<and> (\<forall>config' hc' s' payload' parsed'.
             handles s' handleId = None
             \<and> parse conversationSendSchema (nullish payload' (JObj [])) = Inr parsed'
             \<and> stringOf (getProp parsed' ''handleId'') = handleId \<longrightarrow>
             execute w config' hc' (toolInput ''conversation.send'' payload') s' =
               (Inl (Error (''Conversation handle not found: '' @ handleId)), s'))
       \<and> (\<forall>config' hc' s' payload' parsed'.
             handles s' handleId = None
             \<and> parse conversationDecryptSchema (nullish payload' (JObj [])) = Inr parsed'
             \<and> stringOf (getProp parsed' ''handleId'') = handleId \<longrightarrow>
             execute w config' hc' (toolInput ''conversation.decryptHistoryEntry'' payload') s' =
               (Inl (Error (''Conversation handle not found: '' @ handleId)), s'))
       \<and> (\<forall>config' hc' s' payload' e.
             parse conversationSendSchema (nullish payload' (JObj [])) = Inl e \<longrightarrow>
             (\<exists>issues. e = ZodError issues)
             \<and> execute w config' hc' (toolInput ''conversation.send'' payload') s' = (Inl e, s'))
       \<and> (\<forall>config' hc' s' payload' e.
             parse conversationDecryptSchema (nullish payload' (JObj [])) = Inl e \<longrightarrow>
             (\<exists>issues. e = ZodError issues)
             \<and> execute w config' hc' (toolInput ''conversation.decryptHistoryEntry'' payload') s' =
                 (Inl e, s'))
       \<and> (\<forall>config' hc' s' payload' e.
             parse conversationReleaseSchema (nullish payload' (JObj [])) = Inl e \<longrightarrow>
             (\<exists>issues. e = ZodError issues)
             \<and> execute w config' hc' (toolInput ''conversation.release'' payload') s' = (Inl e, s'))"
proof (intro conjI allI impI)
  show r: "execute w config hc (toolInput ''conversation.release'' payload) s =
           (Inr (JObj [(''success'', JBool True), (''operation'', JStr ''conversation.release''),
                       (''result'', JBool (handleId \<in> dom (handles s)))]),
            s\<lparr>handles := (handles s)(handleId := None)\<rparr>)"
    by (simp add: execute_release[OF p] h dom_def)
  show "handles (snd (execute w config hc (toolInput ''conversation.release'' payload) s)) handleId
           = None"
    by (simp add: r)
next
  fix config' hc' and s' :: plugin_state and payload' parsed'
  assume a: "handles s' handleId = None
             \<and> parse conversationSendSchema (nullish payload' (JObj [])) = Inr parsed'
             \<and> stringOf (getProp parsed' ''handleId'') = handleId"
  then show "execute w config' hc' (toolInput ''conversation.send'' payload') s' =
               (Inl (Error (''Conversation handle not found: '' @ handleId)), s')"
    using execute_send_missing[of payload' parsed' s'] by simp
next
  fix config' hc' and s' :: plugin_state and payload' parsed'
  assume a: "handles s' handleId = None
             \<and> parse conversationDecryptSchema (nullish payload' (JObj [])) = Inr parsed'
             \<and> stringOf (getProp parsed' ''handleId'') = handleId"
  then show "execute w config' hc' (toolInput ''conversation.decryptHistoryEntry'' payload') s' =
               (Inl (Error (''Conversation handle not found: '' @ handleId)), s')"
    using execute_decrypt_missing[of payload' parsed' s'] by simp
next
  fix config' hc' and s' :: plugin_state and payload' e
  assume a: "parse conversationSendSchema (nullish payload' (JObj [])) = Inl e"
  then show "\<exists>issues. e = ZodError issues" by (rule parse_error_zod)
  from a show "execute w config' hc' (toolInput ''conversation.send'' payload') s' = (Inl e, s')"
    by (rule execute_send_invalid)
next
  fix config' hc' and s' :: plugin_state and payload' e
  assume a: "parse conversationDecryptSchema (nullish payload' (JObj [])) = Inl e"
  then show "\<exists>issues. e = ZodError issues" by (rule parse_error_zod)
  from a show "execute w config' hc' (toolInput ''conversation.decryptHistoryEntry'' payload') s' =
                 (Inl e, s')"
    by (rule execute_decrypt_invalid)
next
  fix config' hc' and s' :: plugin_state and payload' e
  assume a: "parse conversationReleaseSchema (nullish payload' (JObj [])) = Inl e"
  then show "\<exists>issues. e = ZodError issues" by (rule parse_error_zod)
  from a show "execute w config' hc' (toolInput ''conversation.release'' payload') s' = (Inl e, s')"
    by (rule execute_release_invalid)
qed

text \<open>
  The example run: a release that succeeds, a second one that does not, calls with the
  released id, and calls whose payload fails the schema.
\<close>

theorem conversation_release_then_not_found_witness:
  "fst (execute (quietWorld Map.empty) None None releaseInput afterChatStart) =
     Inr (JObj [(''success'', JBool True), (''operation'', JStr ''conversation.release''),
                (''result'', JBool True)])
   \<and> fst (execute (quietWorld Map.empty) None None releaseInput afterRelease) =
       Inr (JObj [(''success'', JBool True), (''operation'', JStr ''conversation.release''),
                  (''result'', JBool False)])
   \<and> fst (execute (quietWorld Map.empty) None None sendInput afterRelease) =
       Inl (Error ''Conversation handle not found: 3b241101-e2bb-4255-8caf-4136c566a962'')
   \<and> fst (execute (quietWorld Map.empty) None None
            (toolInput ''conversation.decryptHistoryEntry''
               (JObj [(''handleId'', JStr exampleHandleId), (''entry'', JObj [])]))
            afterRelease) =
       Inl (Error ''Conversation handle not found: 3b241101-e2bb-4255-8caf-4136c566a962'')
   \<and> execute (quietWorld Map.empty) None None (toolInput ''conversation.release'' (JObj []))
        afterChatStart =
       (Inl (ZodError [ZodIssue [Key ''handleId''] ''invalid_type'' (Some ''handleId is required'')]),
        afterChatStart)
   \<and> execute (quietWorld Map.empty) None None
        (toolInput ''conversation.decryptHistoryEntry'' (JObj [(''handleId'', JStr exampleHandleId)]))
        afterRelease =
       (Inl (ZodError [ZodIssue [Key ''entry''] ''custom'' (Some ''entry must be an object'')]),
        afterRelease)"
proof -
  let ?w = "quietWorld Map.empty"
  let ?p = "JObj [(''handleId'', JStr exampleHandleId)]"
  let ?sp = "JObj [(''handleId'', JStr exampleHandleId),
                   (''payload'', JObj [(''message'', JStr ''ping'')])]"
  let ?dp = "JObj [(''handleId'', JStr exampleHandleId), (''entry'', JObj [])]"
  have p: "parse conversationReleaseSchema (nullish ?p (JObj [])) = Inr ?p"
    by (simp add: conversationReleaseSchema_def zod_eval exampleHandleId_def)
  have sp: "handles afterRelease exampleHandleId = None
            \<and> parse conversationSendSchema (nullish ?sp (JObj [])) = Inr ?sp
            \<and> stringOf (getProp ?sp ''handleId'') = exampleHandleId"
    using release_example
    by (simp add: conversationSendSchema_def zod_eval exampleHandleId_def stringOf_def)
  have dp: "handles afterRelease exampleHandleId = None
            \<and> parse conversationDecryptSchema (nullish ?dp (JObj [])) = Inr ?dp
            \<and> stringOf (getProp ?dp ''handleId'') = exampleHandleId"
    using release_example
    by (simp add: conversationDecryptSchema_def zod_eval exampleHandleId_def stringOf_def)
  have f: "exampleHandleId = stringOf (getProp ?p ''handleId'')" by (simp add: stringOf_def)
  note th1 = conversation_release_then_not_found[OF p f, of ?w None None afterChatStart]
  note th2 = conversation_release_then_not_found[OF p f, of ?w None None afterRelease]
  have ar: "afterRelease = afterChatStart\<lparr>handles := (handles afterChatStart)(exampleHandleId := None)\<rparr>"
    using th1 by (simp add: afterRelease_def releaseInput_def)
  have d1: "exampleHandleId \<in> dom (handles afterChatStart)"
    using chatStart_result by (simp add: dom_def)
  have d2: "exampleHandleId \<notin> dom (handles afterRelease)"
    by (simp add: ar dom_def)
  have s: "execute ?w None None (toolInput ''conversation.send'' ?sp) afterRelease =
             (Inl (Error (''Conversation handle not found: '' @ exampleHandleId)), afterRelease)"
    using th1[THEN conjunct2, THEN conjunct2, THEN conjunct1, rule_format, OF sp, of None None]
    by simp
  have d: "execute ?w None None (toolInput ''conversation.decryptHistoryEntry'' ?dp) afterRelease =
             (Inl (Error (''Conversation handle not found: '' @ exampleHandleId)), afterRelease)"
    using th1[THEN conjunct2, THEN conjunct2, THEN conjunct2, THEN conjunct1, rule_format, OF dp,
        of None None]
    by simp
  have rp: "parse conversationReleaseSchema (nullish (JObj []) (JObj [])) =
              Inl (ZodError [ZodIssue [Key ''handleId''] ''invalid_type''
                               (Some ''handleId is required'')])"
    by (simp add: conversationReleaseSchema_def zod_eval)
  have ep: "parse conversationDecryptSchema (nullish ?p (JObj [])) =
              Inl (ZodError [ZodIssue [Key ''entry''] ''custom'' (Some ''entry must be an object'')])"
    by (simp add: conversationDecryptSchema_def zod_eval exampleHandleId_def)
  have ri: "execute ?w None None (toolInput ''conversation.release'' (JObj [])) afterChatStart =
       (Inl (ZodError [ZodIssue [Key ''handleId''] ''invalid_type'' (Some ''handleId is required'')]),
        afterChatStart)"
    using th1[THEN conjunct2, THEN conjunct2, THEN conjunct2, THEN conjunct2, THEN conjunct2,
        THEN conjunct2, rule_format, OF rp, of None None afterChatStart]
    by simp
  have di: "execute ?w None None (toolInput ''conversation.decryptHistoryEntry'' ?p) afterRelease =
       (Inl (ZodError [ZodIssue [Key ''entry''] ''custom'' (Some ''entry must be an object'')]),
        afterRelease)"
    using th1[THEN conjunct2, THEN conjunct2, THEN conjunct2, THEN conjunct2, THEN conjunct2,
        THEN conjunct1, rule_format, OF ep, of None None afterRelease]
    by simp
  have main: "fst (execute ?w None None releaseInput afterChatStart) =
     Inr (JObj [(''success'', JBool True), (''operation'', JStr ''conversation.release''),
                (''result'', JBool True)])
   \<and> fst (execute ?w None None releaseInput afterRelease) =
       Inr (JObj [(''success'', JBool True), (''operation'', JStr ''conversation.release''),
                  (''result'', JBool False)])
   \<and> fst (execute ?w None None sendInput afterRelease) =
       Inl (Error ''Conversation handle not found: 3b241101-e2bb-4255-8caf-4136c566a962'')
   \<and> fst (execute ?w None None
            (toolInput ''conversation.decryptHistoryEntry'' ?dp) afterRelease) =
       Inl (Error ''Conversation handle not found: 3b241101-e2bb-4255-8caf-4136c566a962'')"
    using th1[THEN conjunct1] th2[THEN conjunct1] s d d1 d2
    by (simp add: releaseInput_def sendInput_def) (simp add: exampleHandleId_def)
  from main ri di show ?thesis by blast
qed

end
